theory Spec2Isabelle
  imports Complex_Main "HOL-Library.Word"
begin

unbundle bit_operations_syntax

section \<open>SocketService: the connection layer of the receiver app\<close>

text \<open>
  A shallow embedding of the class \<open>SocketService\<close> (discovery, connection lifecycle,
  payload decoding, callbacks).  Exceptions are values of \<open>js_error\<close>; a function that
  can throw returns \<open>js_error + 'a\<close> with \<open>Inl\<close> the exception.  Platform functions the
  class calls (\<open>btoa\<close>, \<open>DataView.getFloat32\<close>, \<open>fetch\<close>, \<open>URL\<close>, the socket.io client)
  are modelled after their standards, and each such model says so.
\<close>

subsection \<open>Runtime values\<close>

datatype js_error = TypeError | RangeError | InvalidCharacterError | AbortError | NetworkError

text \<open>
  A JavaScript number, as far as decoding a binary32 needs it: the finite values are exact
  reals (every binary32 is exactly a binary64); \<open>-0\<close> is identified with \<open>0\<close>.
\<close>

datatype jsnumber = NaN | Infinite bool | Finite real

type_synonym byte = "8 word"

text \<open>
  The payloads socket.io hands to a handler.  Text is a \<open>string\<close>; an \<open>ArrayBuffer\<close> and
  a \<open>Uint8Array\<close> carry their bytes; \<open>Object\<close> is a plain object with its own properties
  in order.
\<close>

datatype jsvalue =
    Undefined
  | Null
  | Boolean bool
  | Number jsnumber
  | String string
  | ArrayBuffer "byte list"
  | Uint8Array "byte list"
  | Object "(string \<times> jsvalue) list"

text \<open>
  Property read \<open>v.k\<close> for a key that no built-in prototype defines (the keys read here are
  \<open>chip_data\<close>, \<open>heartrate\<close>, \<open>resprate\<close>, \<open>temp\<close>, \<open>chip_img\<close>): reading from
  \<open>undefined\<close> or \<open>null\<close> throws a TypeError, a plain object yields the property or
  \<open>undefined\<close>, every other value yields \<open>undefined\<close>.
\<close>

definition field :: "(string \<times> jsvalue) list \<Rightarrow> string \<Rightarrow> jsvalue" where
  "field ps k = (case map_of ps k of Some v \<Rightarrow> v | None \<Rightarrow> Undefined)"

fun get_prop :: "jsvalue \<Rightarrow> string \<Rightarrow> js_error + jsvalue" where
  "get_prop Undefined k = Inl TypeError"
| "get_prop Null k = Inl TypeError"
| "get_prop (Object ps) k = Inr (field ps k)"
| "get_prop v k = Inr Undefined"

subsection \<open>\<open>btoa\<close> and base64\<close>

text \<open>
  The base64 alphabet of RFC 4648: index \<open>0..25\<close> is \<open>A..Z\<close>, \<open>26..51\<close> is \<open>a..z\<close>,
  \<open>52..61\<close> is \<open>0..9\<close>, \<open>62\<close> is \<open>+\<close> and \<open>63\<close> is \<open>/\<close>.
\<close>

definition b64_char :: "nat \<Rightarrow> char" where
  "b64_char i =
     (if i < 26 then char_of (65 + i)
      else if i < 52 then char_of (71 + i)
      else if i < 62 then char_of (i - 4)
      else if i = 62 then CHR ''+''
      else CHR ''/'')"

text \<open>Three bytes become four sextets; one or two trailing bytes are padded with \<open>=\<close>.\<close>

fun b64_encode :: "byte list \<Rightarrow> string" where
  "b64_encode [] = []"
| "b64_encode [a] =
     [b64_char (unat a div 4), b64_char (unat a mod 4 * 16), CHR ''='', CHR ''='']"
| "b64_encode [a, b] =
     [b64_char (unat a div 4), b64_char (unat a mod 4 * 16 + unat b div 16),
      b64_char (unat b mod 16 * 4), CHR ''='']"
| "b64_encode (a # b # c # rest) =
     [b64_char (unat a div 4), b64_char (unat a mod 4 * 16 + unat b div 16),
      b64_char (unat b mod 16 * 4 + unat c div 64), b64_char (unat c mod 64)]
     @ b64_encode rest"

text \<open>
  A JavaScript string is a sequence of UTF-16 code units.  \<open>String.fromCharCode\<close> of a byte
  is the code unit of that value; \<open>btoa\<close> throws InvalidCharacterError when a code unit
  is above \<open>0xFF\<close> and otherwise encodes the code units as bytes.
\<close>

type_synonym code_unit = "16 word"

definition fromCharCode :: "byte \<Rightarrow> code_unit" where
  "fromCharCode b = ucast b"

definition btoa :: "code_unit list \<Rightarrow> js_error + string" where
  "btoa s =
     (if list_all (\<lambda>u. u \<le> 255) s then Inr (b64_encode (map ucast s))
      else Inl InvalidCharacterError)"

text \<open>
  \<open>arrayBufferToBase64\<close>: the loop \<open>for (i = 0; i < len; i++) binary += fromCharCode(a[i])\<close>,
  then \<open>btoa(binary)\<close>.
\<close>

function binary_loop :: "byte list \<Rightarrow> nat \<Rightarrow> code_unit list \<Rightarrow> code_unit list" where
  "binary_loop uint8Array i binary =
     (if i < length uint8Array
      then binary_loop uint8Array (i + 1) (binary @ [fromCharCode (uint8Array ! i)])
      else binary)"
  by pat_completeness auto
termination
  by (relation "measure (\<lambda>(a, i, b). length a - i)") auto

declare binary_loop.simps [simp del]

definition arrayBufferToBase64 :: "byte list \<Rightarrow> js_error + string" where
  "arrayBufferToBase64 uint8Array = btoa (binary_loop uint8Array 0 [])"

text \<open>
  The decoder a consumer of the image string applies (RFC 4648, with padding): it is not
  part of the service; the round-trip law is stated against it.
\<close>

definition b64_index :: "char \<Rightarrow> nat option" where
  "b64_index c =
     (let n = (of_char c :: nat) in
      if 65 \<le> n \<and> n \<le> 90 then Some (n - 65)
      else if 97 \<le> n \<and> n \<le> 122 then Some (n - 71)
      else if 48 \<le> n \<and> n \<le> 57 then Some (n + 4)
      else if n = 43 then Some 62
      else if n = 47 then Some 63
      else None)"

fun b64_decode :: "string \<Rightarrow> byte list option" where
  "b64_decode [] = Some []"
| "b64_decode (c1 # c2 # c3 # c4 # rest) =
     (case (b64_index c1, b64_index c2) of
        (Some v1, Some v2) \<Rightarrow>
          (if rest = [] \<and> c3 = CHR ''='' \<and> c4 = CHR ''=''
           then Some [of_nat (v1 * 4 + v2 div 16)]
           else (case b64_index c3 of
             None \<Rightarrow> None
           | Some v3 \<Rightarrow>
               (if rest = [] \<and> c4 = CHR ''=''
                then Some [of_nat (v1 * 4 + v2 div 16), of_nat (v2 mod 16 * 16 + v3 div 4)]
                else (case b64_index c4 of
                  None \<Rightarrow> None
                | Some v4 \<Rightarrow>
                    (case b64_decode rest of
                       None \<Rightarrow> None
                     | Some bs \<Rightarrow>
                         Some (of_nat (v1 * 4 + v2 div 16)
                               # of_nat (v2 mod 16 * 16 + v3 div 4)
                               # of_nat (v3 mod 4 * 64 + v4) # bs))))))
      | _ \<Rightarrow> None)"
| "b64_decode _ = None"

subsection \<open>\<open>DataView.getFloat32\<close>\<close>

text \<open>
  The 32-bit word held by up to four bytes in little-endian order (first byte lowest).
\<close>

fun le_word :: "byte list \<Rightarrow> 32 word" where
  "le_word [] = 0"
| "le_word (b # bs) = ucast b OR push_bit 8 (le_word bs)"

text \<open>
  The value of a binary32 with sign \<open>s\<close>, biased exponent \<open>e\<close> (8 bits) and fraction
  \<open>f\<close> (23 bits), after IEEE 754: exponent 255 is an infinity or a NaN, exponent 0 a
  subnormal, and otherwise the magnitude is \<open>(1 + f / 2 ^ 23) * 2 ^ (e - 127)\<close>.
\<close>

definition binary32_value :: "bool \<Rightarrow> nat \<Rightarrow> nat \<Rightarrow> jsnumber" where
  "binary32_value s e f =
     (let sg = (if s then - 1 else 1 :: real)
      in if e = 255 then (if f = 0 then Infinite s else NaN)
         else if e = 0 then Finite (sg * (real f / 2 ^ 23) / 2 ^ 126)
         else if 127 \<le> e then Finite (sg * (1 + real f / 2 ^ 23) * 2 ^ (e - 127))
         else Finite (sg * (1 + real f / 2 ^ 23) / 2 ^ (127 - e)))"

text \<open>
  The fields of a 32-bit pattern: bit 31 is the sign, bits 30..23 the biased exponent,
  bits 22..0 the fraction.
\<close>

definition float32_of_bits :: "32 word \<Rightarrow> jsnumber" where
  "float32_of_bits w =
     binary32_value (bit w 31) (unat (drop_bit 23 w AND 0xFF)) (unat (w AND 0x7FFFFF))"

text \<open>
  \<open>view.getFloat32(byteOffset, littleEndian)\<close> on a view of the whole buffer: a RangeError
  when the four bytes do not fit, else the binary32 read in the given byte order.
\<close>

definition getFloat32 :: "byte list \<Rightarrow> nat \<Rightarrow> bool \<Rightarrow> js_error + jsnumber" where
  "getFloat32 buffer byteOffset littleEndian =
     (if length buffer < byteOffset + 4 then Inl RangeError
      else let bs = take 4 (drop byteOffset buffer)
           in Inr (float32_of_bits (le_word (if littleEndian then bs else rev bs))))"

definition bytesToFloat :: "byte list \<Rightarrow> js_error + jsnumber" where
  "bytesToFloat buffer = getFloat32 buffer 0 True"

subsection \<open>URLs\<close>

text \<open>
  The decimal form a template literal gives a port.  Ports are modelled as naturals: for
  every natural below \<open>2 ^ 53\<close> (the integers a JavaScript number holds exactly, all of
  them below \<open>10 ^ 21\<close>) the template literal prints exactly its decimal digits.
\<close>

definition digit_char :: "nat \<Rightarrow> char" where
  "digit_char d = char_of (48 + d)"

fun number_to_string :: "nat \<Rightarrow> string" where
  "number_to_string n =
     (if 10 \<le> n then number_to_string (n div 10) @ [digit_char (n mod 10)]
      else [digit_char n])"

declare number_to_string.simps [simp del]

definition default_port :: nat where
  "default_port = 27182"

text \<open>The template \<open>http://${ip}:${port}\<close> of the constructor and of \<open>changeConnection\<close>.\<close>

definition mk_url :: "string \<Rightarrow> nat \<Rightarrow> string" where
  "mk_url ip port = ''http://'' @ ip @ '':'' @ number_to_string port"

text \<open>
  \<open>new URL(u).hostname\<close> belongs to the platform: the service is modelled over any
  \<open>url_parser\<close>, which gives the hostname of a URL or \<open>None\<close> where \<open>new URL\<close> throws.
\<close>

type_synonym url_parser = "string \<Rightarrow> string option"

text \<open>
  \<open>url_hostname\<close> is the parser of the URL Standard on the URLs it covers here:
  \<open>http://<host>\<close> or \<open>http://<host>:<port>\<close> with a host of ASCII letters, digits,
  \<open>.\<close> and \<open>-\<close>, no label of which starts with \<open>xn--\<close>, and a port of decimal digits.
  On these the standard lower-cases the host, reads a host that ends in a number as an IPv4
  address (parts in decimal, octal with a leading \<open>0\<close> or hexadecimal with \<open>0x\<close>, the
  last part filling the remaining bytes) and serialises it as four decimal octets, and
  fails on an empty host, an invalid IPv4 address or a port above 65535.  For a string it
  does not cover \<open>url_hostname\<close> gives \<open>None\<close>, which need not be what the standard
  gives; nothing below applies it to one.
\<close>

text \<open>ASCII classes, lower-casing, and the value of a digit in a radix.\<close>

definition is_digit :: "char \<Rightarrow> bool" where
  "is_digit c = (48 \<le> (of_char c :: nat) \<and> (of_char c :: nat) \<le> 57)"

definition is_letter :: "char \<Rightarrow> bool" where
  "is_letter c = ((65 \<le> (of_char c :: nat) \<and> (of_char c :: nat) \<le> 90)
                  \<or> (97 \<le> (of_char c :: nat) \<and> (of_char c :: nat) \<le> 122))"

definition ascii_lower :: "char \<Rightarrow> char" where
  "ascii_lower c =
     (if 65 \<le> (of_char c :: nat) \<and> (of_char c :: nat) \<le> 90 then char_of (of_char c + 32 :: nat)
      else c)"

definition digit_of :: "nat \<Rightarrow> char \<Rightarrow> nat option" where
  "digit_of radix c =
     (let n = (of_char c :: nat);
          v = (if 48 \<le> n \<and> n \<le> 57 then Some (n - 48)
               else if 97 \<le> n \<and> n \<le> 102 then Some (n - 87)
               else if 65 \<le> n \<and> n \<le> 70 then Some (n - 55)
               else None)
      in case v of None \<Rightarrow> None | Some d \<Rightarrow> if d < radix then Some d else None)"

fun parse_radix :: "nat \<Rightarrow> string \<Rightarrow> nat \<Rightarrow> nat option" where
  "parse_radix radix [] acc = Some acc"
| "parse_radix radix (c # cs) acc =
     (case digit_of radix c of
        None \<Rightarrow> None
      | Some d \<Rightarrow> parse_radix radix cs (acc * radix + d))"

text \<open>Strictly splitting a string on a delimiter: \<open>"a..b"\<close> gives \<open>a\<close>, the empty string, \<open>b\<close>.\<close>

fun split_on :: "char \<Rightarrow> string \<Rightarrow> string list" where
  "split_on d [] = [[]]"
| "split_on d (c # cs) =
     (if c = d then [] # split_on d cs
      else (case split_on d cs of
              p # ps \<Rightarrow> (c # p) # ps
            | [] \<Rightarrow> [[c]]))"

text \<open>
  The IPv4 number parser: empty input fails; \<open>0x\<close> or \<open>0X\<close> selects radix 16, another
  leading \<open>0\<close> before further characters radix 8, else radix 10; what is left after the
  prefix may be empty (the number 0).
\<close>

definition parse_ipv4_number :: "string \<Rightarrow> nat option" where
  "parse_ipv4_number input =
     (if input = [] then None
      else if 2 \<le> length input \<and> (take 2 input = ''0x'' \<or> take 2 input = ''0X'')
      then parse_radix 16 (drop 2 input) 0
      else if 2 \<le> length input \<and> take 1 input = ''0''
      then parse_radix 8 (drop 1 input) 0
      else parse_radix 10 input 0)"

text \<open>The ends-in-a-number checker: an empty last part after a dot is ignored.\<close>

definition ends_in_number :: "string \<Rightarrow> bool" where
  "ends_in_number input =
     (let parts = split_on CHR ''.'' input in
      if last parts = [] \<and> length parts = 1 then False
      else (let l = last (if last parts = [] then butlast parts else parts)
            in (l \<noteq> [] \<and> list_all is_digit l) \<or> parse_ipv4_number l \<noteq> None))"

text \<open>
  The IPv4 parser: at most four parts, each an IPv4 number; all but the last at most 255,
  the last below \<open>256 ^ (5 - n)\<close> for \<open>n\<close> parts; the address is the last number plus the
  others weighted from the highest byte down.
\<close>

fun parse_all :: "string list \<Rightarrow> nat list option" where
  "parse_all [] = Some []"
| "parse_all (p # ps) =
     (case parse_ipv4_number p of
        None \<Rightarrow> None
      | Some n \<Rightarrow> (case parse_all ps of None \<Rightarrow> None | Some ns \<Rightarrow> Some (n # ns)))"

fun weighted :: "nat list \<Rightarrow> nat \<Rightarrow> nat" where
  "weighted [] counter = 0"
| "weighted (n # ns) counter = n * 256 ^ (3 - counter) + weighted ns (counter + 1)"

definition ipv4_parser :: "string \<Rightarrow> nat option" where
  "ipv4_parser input =
     (let parts0 = split_on CHR ''.'' input;
          parts = (if last parts0 = [] \<and> 1 < length parts0 then butlast parts0 else parts0)
      in if 4 < length parts then None
         else (case parse_all parts of
                 None \<Rightarrow> None
               | Some numbers \<Rightarrow>
                   if list_ex (\<lambda>n. 255 < n) (butlast numbers) then None
                   else if 256 ^ (5 - length numbers) \<le> last numbers then None
                   else Some (last numbers + weighted (butlast numbers) 0)))"

text \<open>The IPv4 serialiser: the four bytes in decimal, highest first, separated by dots.\<close>

definition ipv4_string :: "nat \<Rightarrow> nat \<Rightarrow> nat \<Rightarrow> nat \<Rightarrow> string" where
  "ipv4_string a b c d =
     number_to_string a @ ''.'' @ number_to_string b @ ''.'' @ number_to_string c @ ''.''
     @ number_to_string d"

definition ipv4_serializer :: "nat \<Rightarrow> string" where
  "ipv4_serializer address =
     ipv4_string (address div 16777216 mod 256) (address div 65536 mod 256)
       (address div 256 mod 256) (address mod 256)"

text \<open>
  The host parser for a domain of the covered form, and the split of the URL into host and
  port.
\<close>

definition host_char :: "char \<Rightarrow> bool" where
  "host_char c = (is_letter c \<or> is_digit c \<or> c = CHR ''.'' \<or> c = CHR ''-'')"

definition host_parser :: "string \<Rightarrow> string option" where
  "host_parser input =
     (let asciiDomain = map ascii_lower input in
      if asciiDomain = [] then None
      else if list_ex (\<lambda>label. take 4 label = ''xn--'') (split_on CHR ''.'' asciiDomain) then None
      else if ends_in_number asciiDomain
      then map_option ipv4_serializer (ipv4_parser asciiDomain)
      else Some asciiDomain)"

definition url_hostname :: url_parser where
  "url_hostname u =
     (if take 7 u \<noteq> ''http://'' then None
      else (let rest = drop 7 u;
                host = takeWhile (\<lambda>c. c \<noteq> CHR '':'') rest;
                port = drop 1 (dropWhile (\<lambda>c. c \<noteq> CHR '':'') rest)
            in if \<not> list_all host_char host then None
               else (case parse_radix 10 port 0 of
                       None \<Rightarrow> None
                     | Some p \<Rightarrow> if 65535 < p then None else host_parser host)))"

subsection \<open>The service state\<close>

datatype conn_status = Active | Inactive

record vital_signs =
  heartrate :: jsvalue
  resprate :: jsvalue
  temp :: jsvalue

text \<open>
  The five callback slots are consumers outside the service.  A slot is modelled by whether
  a callback is registered, and every invocation is recorded, in order, in \<open>calls\<close>;
  callbacks are taken to return normally.
\<close>

datatype callback_call =
    VitalSignsUpdate vital_signs jsvalue
  | RGBImageUpdate string
  | ThermalImageUpdate string
  | FPSUpdate jsnumber
  | ConnectionStatusChange conn_status string

text \<open>Console output: the level and the message (the first argument of the call).\<close>

datatype console_entry = ConsoleLog string | ConsoleError string

text \<open>
  A socket of the socket.io client.  \<open>Connecting\<close>: created by \<open>io\<close> with
  \<open>autoConnect\<close>, or re-connecting after the link dropped; \<open>socket.connected\<close> is false.
  \<open>Connected\<close>: handshake done.  \<open>Closed\<close>: disconnected for good.  A socket is live
  unless it is \<open>Closed\<close>.  \<open>data_handlers\<close> counts how often \<open>setupEventHandlers\<close>
  has registered the data listeners on it; \<open>promise\<close> is the promise \<open>connect\<close> returned
  for it and \<open>logs_rejection\<close> says that \<open>changeConnection\<close> attached
  \<open>.catch(console.error)\<close> to it.
\<close>

datatype socket_state = Connecting | Connected | Closed

datatype promise_state = Unsettled | Resolved | Rejected

text \<open>
  What the service does to the socket layer and to the status callback, in the order it
  does it: a call of \<open>io\<close> (with the index of the socket it creates), a call of
  \<open>socket.disconnect()\<close>, a call of the status callback.  The \<open>timeline\<close> of the
  service below collects these; it is not a field of the class but the record of the order
  of its effects.
\<close>

datatype lifecycle_event =
    SocketOpened nat
  | SocketDisconnected nat
  | StatusNotified conn_status string

record sio_socket =
  sock_url :: string
  sock_state :: socket_state
  data_handlers :: nat
  promise :: promise_state
  logs_rejection :: bool

text \<open>
  The fields of the class.  \<open>sockets\<close> holds every socket \<open>io\<close> has created, oldest
  first; the field \<open>socket\<close> refers to one of them by its index.
\<close>

record service =
  sockets :: "sio_socket list"
  socket :: "nat option"
  publisherUrl :: string
  isConnected :: bool
  onVitalSignsUpdate :: bool
  onRGBImageUpdate :: bool
  onThermalImageUpdate :: bool
  onFPSUpdate :: bool
  onConnectionStatusChange :: bool
  calls :: "callback_call list"
  console :: "console_entry list"
  timeline :: "lifecycle_event list"

definition SocketService :: "string \<Rightarrow> nat \<Rightarrow> service" where
  "SocketService publisherIP publisherPort =
     \<lparr>sockets = [], socket = None, publisherUrl = mk_url publisherIP publisherPort,
      isConnected = False, onVitalSignsUpdate = False, onRGBImageUpdate = False,
      onThermalImageUpdate = False, onFPSUpdate = False, onConnectionStatusChange = False,
      calls = [], console = [], timeline = []\<rparr>"

definition setOnVitalSignsUpdate :: "service \<Rightarrow> service" where
  "setOnVitalSignsUpdate s = s\<lparr>onVitalSignsUpdate := True\<rparr>"

definition setOnRGBImageUpdate :: "service \<Rightarrow> service" where
  "setOnRGBImageUpdate s = s\<lparr>onRGBImageUpdate := True\<rparr>"

definition setOnThermalImageUpdate :: "service \<Rightarrow> service" where
  "setOnThermalImageUpdate s = s\<lparr>onThermalImageUpdate := True\<rparr>"

definition setOnFPSUpdate :: "service \<Rightarrow> service" where
  "setOnFPSUpdate s = s\<lparr>onFPSUpdate := True\<rparr>"

definition setOnConnectionStatusChange :: "service \<Rightarrow> service" where
  "setOnConnectionStatusChange s = s\<lparr>onConnectionStatusChange := True\<rparr>"

text \<open>\<open>this.onX?.(args)\<close>: the call happens when the slot is filled.\<close>

definition invoke :: "bool \<Rightarrow> callback_call \<Rightarrow> service \<Rightarrow> service" where
  "invoke slot c s = (if slot then s\<lparr>calls := calls s @ [c]\<rparr> else s)"

text \<open>\<open>this.onConnectionStatusChange?.(status, ip)\<close>.\<close>

definition notify_status :: "conn_status \<Rightarrow> string \<Rightarrow> service \<Rightarrow> service" where
  "notify_status st ip s =
     (if onConnectionStatusChange s
      then s\<lparr>calls := calls s @ [ConnectionStatusChange st ip],
             timeline := timeline s @ [StatusNotified st ip]\<rparr>
      else s)"

definition console_log :: "string \<Rightarrow> service \<Rightarrow> service" where
  "console_log m s = s\<lparr>console := console s @ [ConsoleLog m]\<rparr>"

definition console_error :: "string \<Rightarrow> service \<Rightarrow> service" where
  "console_error m s = s\<lparr>console := console s @ [ConsoleError m]\<rparr>"

text \<open>\<open>try { body } catch (error) { handler }\<close>.\<close>

definition try_catch :: "js_error + 'a \<Rightarrow> (js_error \<Rightarrow> js_error + 'a) \<Rightarrow> js_error + 'a" where
  "try_catch body handler = (case body of Inl e \<Rightarrow> handler e | Inr v \<Rightarrow> Inr v)"

definition getIPFromUrl :: "url_parser \<Rightarrow> service \<Rightarrow> string" where
  "getIPFromUrl hostname_of s =
     (case hostname_of (publisherUrl s) of Some h \<Rightarrow> h | None \<Rightarrow> ''Unknown'')"

definition getConnectedIP :: "url_parser \<Rightarrow> service \<Rightarrow> string" where
  "getConnectedIP hostname_of s = getIPFromUrl hostname_of s"


subsection \<open>Connection lifecycle\<close>

definition set_sock_state :: "nat \<Rightarrow> socket_state \<Rightarrow> service \<Rightarrow> service" where
  "set_sock_state i st s = s\<lparr>sockets := (sockets s)[i := (sockets s ! i)\<lparr>sock_state := st\<rparr>]\<rparr>"

text \<open>\<open>this.socket?.connected\<close>.\<close>

definition socket_connected :: "service \<Rightarrow> bool" where
  "socket_connected s =
     (case socket s of
        None \<Rightarrow> False
      | Some i \<Rightarrow> i < length (sockets s) \<and> sock_state (sockets s ! i) = Connected)"

text \<open>
  \<open>setupEventHandlers\<close> registers the data listeners on \<open>this.socket\<close>, once more at
  every call.
\<close>

definition setupEventHandlers :: "service \<Rightarrow> service" where
  "setupEventHandlers s =
     (case socket s of
        None \<Rightarrow> s
      | Some i \<Rightarrow>
          (if i < length (sockets s)
           then s\<lparr>sockets := (sockets s)[i := (sockets s ! i)
                     \<lparr>data_handlers := data_handlers (sockets s ! i) + 1\<rparr>]\<rparr>
           else s))"

text \<open>
  The three listeners \<open>connect\<close> registers on the socket it creates (socket \<open>i\<close>).  They
  close over \<open>this\<close>: they read and write the fields the service has when they run.
  A promise settles once; later \<open>resolve\<close> and \<open>reject\<close> calls do nothing.  On a
  rejection the handler \<open>changeConnection\<close> attached, if any, prints the error.
\<close>

definition settle :: "nat \<Rightarrow> promise_state \<Rightarrow> service \<Rightarrow> service" where
  "settle i p s =
     (if promise (sockets s ! i) = Unsettled
      then (let s' = s\<lparr>sockets := (sockets s)[i := (sockets s ! i)\<lparr>promise := p\<rparr>]\<rparr>
            in if p = Rejected \<and> logs_rejection (sockets s ! i)
               then console_error ''Error'' s' else s')
      else s)"

definition on_connect :: "url_parser \<Rightarrow> nat \<Rightarrow> service \<Rightarrow> service" where
  "on_connect hostname_of i s =
     (let s1 = console_log ''Socket ID:'' (console_log ''Connected to publisher:'' s);
          s2 = s1\<lparr>isConnected := True\<rparr>;
          s3 = notify_status Active (getIPFromUrl hostname_of s2) s2;
          s4 = setupEventHandlers s3
      in settle i Resolved s4)"

definition on_disconnect :: "service \<Rightarrow> service" where
  "on_disconnect s =
     (let s1 = console_log ''Disconnected from publisher:'' s;
          s2 = s1\<lparr>isConnected := False\<rparr>
      in notify_status Inactive ''Disconnected'' s2)"

definition on_connect_error :: "nat \<Rightarrow> service \<Rightarrow> service" where
  "on_connect_error i s =
     (let s1 = console_error ''Connection error:'' s;
          s2 = s1\<lparr>isConnected := False\<rparr>;
          s3 = notify_status Inactive ''Connection Error'' s2
      in settle i Rejected s3)"

text \<open>
  \<open>socket.disconnect()\<close> of the socket.io client on a connected socket: the socket is
  closed and its \<open>disconnect\<close> listener runs before the call returns.  The service calls it
  on a connected socket only.
\<close>

definition sio_disconnect :: "nat \<Rightarrow> service \<Rightarrow> service" where
  "sio_disconnect i s =
     on_disconnect (set_sock_state i Closed (s\<lparr>timeline := timeline s @ [SocketDisconnected i]\<rparr>))"

text \<open>\<open>io(url, options)\<close> with \<open>forceNew\<close> and \<open>autoConnect\<close>: a new socket, connecting.\<close>

definition io :: "string \<Rightarrow> sio_socket" where
  "io u = \<lparr>sock_url = u, sock_state = Connecting, data_handlers = 0, promise = Unsettled,
           logs_rejection = False\<rparr>"

definition connect :: "service \<Rightarrow> service" where
  "connect s =
     (let s1 = (case socket s of
                  None \<Rightarrow> s
                | Some i \<Rightarrow> if socket_connected s then sio_disconnect i s else s);
          s2 = console_log ''Attempting to connect to:'' s1
      in s2\<lparr>sockets := sockets s2 @ [io (publisherUrl s2)],
             socket := Some (length (sockets s2)),
             timeline := timeline s2 @ [SocketOpened (length (sockets s2))]\<rparr>)"

definition disconnect :: "service \<Rightarrow> service" where
  "disconnect s =
     (let s1 = (case socket s of
                  None \<Rightarrow> s
                | Some i \<Rightarrow> if socket_connected s then sio_disconnect i s else s)
      in s1\<lparr>isConnected := False\<rparr>)"

text \<open>
  \<open>.catch(console.error)\<close> on the promise \<open>connect\<close> has just returned: it marks the
  promise of the socket just created.
\<close>

definition catch_console_error :: "service \<Rightarrow> service" where
  "catch_console_error s =
     s\<lparr>sockets := (sockets s)[length (sockets s) - 1 :=
                (sockets s ! (length (sockets s) - 1))\<lparr>logs_rejection := True\<rparr>]\<rparr>"

text \<open>\<open>changeConnection\<close>: the new URL, then \<open>this.connect().catch(console.error)\<close>.\<close>

definition changeConnection :: "string \<Rightarrow> nat \<Rightarrow> service \<Rightarrow> service" where
  "changeConnection newIP port s =
     catch_console_error (connect (s\<lparr>publisherUrl := mk_url newIP port\<rparr>))"

text \<open>
  What the socket.io client does to a socket on its own, each with the listener it
  fires.  A handshake completes on a connecting socket (\<open>connect\<close>); a connection attempt
  fails (\<open>connect_error\<close>, the socket keeps trying); the link of a connected socket
  drops (\<open>disconnect\<close>), after which the client re-connects or, when the server closed
  the socket, does not; the retry budget of a connecting socket runs out (no listener of
  the service).  An event that does not fit the state of the socket does not happen, and
  a closed socket has no events.
\<close>

datatype sio_event = EvConnect | EvConnectError | EvDisconnect bool | EvRetriesExhausted

definition deliver :: "url_parser \<Rightarrow> nat \<Rightarrow> sio_event \<Rightarrow> service \<Rightarrow> service" where
  "deliver hostname_of i ev s =
     (if length (sockets s) \<le> i then s
      else (case (ev, sock_state (sockets s ! i)) of
              (EvConnect, Connecting) \<Rightarrow> on_connect hostname_of i (set_sock_state i Connected s)
            | (EvConnectError, Connecting) \<Rightarrow> on_connect_error i s
            | (EvDisconnect reconnects, Connected) \<Rightarrow>
                on_disconnect (set_sock_state i (if reconnects then Connecting else Closed) s)
            | (EvRetriesExhausted, Connecting) \<Rightarrow> set_sock_state i Closed s
            | _ \<Rightarrow> s))"

fun deliver_all :: "url_parser \<Rightarrow> (nat \<times> sio_event) list \<Rightarrow> service \<Rightarrow> service" where
  "deliver_all hostname_of [] s = s"
| "deliver_all hostname_of ((i, ev) # evs) s =
     deliver_all hostname_of evs (deliver hostname_of i ev s)"

text \<open>
  A history of the service after its construction: calls of \<open>connect\<close> and
  \<open>disconnect\<close> by the consumer and events of the sockets, in any order.
\<close>

datatype step = CallConnect | CallDisconnect | Event nat sio_event

fun run :: "url_parser \<Rightarrow> step list \<Rightarrow> service \<Rightarrow> service" where
  "run hostname_of [] s = s"
| "run hostname_of (CallConnect # steps) s = run hostname_of steps (connect s)"
| "run hostname_of (CallDisconnect # steps) s = run hostname_of steps (disconnect s)"
| "run hostname_of (Event i ev # steps) s = run hostname_of steps (deliver hostname_of i ev s)"

definition live :: "sio_socket \<Rightarrow> bool" where
  "live k = (sock_state k \<noteq> Closed)"


subsection \<open>Event decoding\<close>

text \<open>
  The listeners \<open>setupEventHandlers\<close> registers, as functions of the payload and the
  service; \<open>Inl\<close> is an exception that leaves the listener.  The frame-rate listener
  takes an \<open>ArrayBuffer\<close>, as its signature declares, given by its bytes.  The
  \<open>thermal_image\<close> listener is not among them: no property below is about it.
\<close>

definition handleChipUpdate :: "jsvalue \<Rightarrow> service \<Rightarrow> js_error + service" where
  "handleChipUpdate data s =
     try_catch
       (case get_prop data ''chip_data'' of
          Inl e \<Rightarrow> Inl e
        | Inr chipData \<Rightarrow>
            (case get_prop chipData ''heartrate'' of
               Inl e \<Rightarrow> Inl e
             | Inr hr \<Rightarrow>
                 (case get_prop chipData ''resprate'' of
                    Inl e \<Rightarrow> Inl e
                  | Inr rr \<Rightarrow>
                      (case get_prop chipData ''temp'' of
                         Inl e \<Rightarrow> Inl e
                       | Inr t \<Rightarrow>
                           (case get_prop chipData ''chip_img'' of
                              Inl e \<Rightarrow> Inl e
                            | Inr img \<Rightarrow>
                                Inr (invoke (onVitalSignsUpdate s)
                                       (VitalSignsUpdate
                                          \<lparr>heartrate = hr, resprate = rr, temp = t\<rparr> img) s))))))
       (\<lambda>error. Inr (console_error ''Error handling chip update:'' s))"

definition update_feed_handler :: "jsvalue \<Rightarrow> service \<Rightarrow> js_error + service" where
  "update_feed_handler data s =
     try_catch
       (case data of
          ArrayBuffer bytes \<Rightarrow>
            (case arrayBufferToBase64 bytes of
               Inl e \<Rightarrow> Inl e
             | Inr base64String \<Rightarrow>
                 Inr (invoke (onRGBImageUpdate s) (RGBImageUpdate base64String) s))
        | Uint8Array bytes \<Rightarrow>
            (case arrayBufferToBase64 bytes of
               Inl e \<Rightarrow> Inl e
             | Inr base64String \<Rightarrow>
                 Inr (invoke (onRGBImageUpdate s) (RGBImageUpdate base64String) s))
        | String text \<Rightarrow> Inr (invoke (onRGBImageUpdate s) (RGBImageUpdate text) s)
        | _ \<Rightarrow> Inr (console_error ''Unknown data format for update_feed:'' s))
       (\<lambda>error. Inr (console_error ''Error processing RGB image data:'' s))"

definition frame_rate_handler :: "byte list \<Rightarrow> service \<Rightarrow> js_error + service" where
  "frame_rate_handler data s =
     (case bytesToFloat data of
        Inl e \<Rightarrow> Inl e
      | Inr fps \<Rightarrow> Inr (invoke (onFPSUpdate s) (FPSUpdate fps) s))"

subsection \<open>Discovery\<close>

text \<open>
  The network, as seen by \<open>fetch\<close>: what a GET of a URL does, with the time in
  milliseconds at which it does it.  \<open>Responds t st\<close>: the response with HTTP status
  \<open>st\<close> arrives at \<open>t\<close>; \<open>Fails t\<close>: the request fails at \<open>t\<close>; \<open>Hangs\<close>: nothing
  ever comes back.
\<close>

datatype fetch_behaviour = Responds nat nat | Fails nat | Hangs

type_synonym network = "string \<Rightarrow> fetch_behaviour"

record response =
  status :: nat

text \<open>\<open>response.ok\<close> of the Fetch standard: a status in 200..299.\<close>

definition ok :: "response \<Rightarrow> bool" where
  "ok r = (200 \<le> status r \<and> status r \<le> 299)"

text \<open>
  \<open>fetch(url, {method: 'GET', signal})\<close> with \<open>setTimeout(() => controller.abort(),
  abort_ms)\<close> started just before: whatever has not happened before the timer fires is
  aborted, and \<open>fetch\<close> rejects with an AbortError.
\<close>

definition fetch :: "network \<Rightarrow> string \<Rightarrow> nat \<Rightarrow> js_error + response" where
  "fetch net u abort_ms =
     (case net u of
        Responds t st \<Rightarrow> if t < abort_ms then Inr \<lparr>status = st\<rparr> else Inl AbortError
      | Fails t \<Rightarrow> if t < abort_ms then Inl NetworkError else Inl AbortError
      | Hangs \<Rightarrow> Inl AbortError)"

text \<open>What a static method does besides returning: console output and requests, in order.\<close>

datatype effect = Console console_entry | FetchGET string nat

definition ping_url :: "string \<Rightarrow> nat \<Rightarrow> string" where
  "ping_url ip port = ''http://'' @ ip @ '':'' @ number_to_string port @ ''/ping''"

definition testConnection :: "network \<Rightarrow> string \<Rightarrow> nat \<Rightarrow> bool \<times> effect list" where
  "testConnection net ip port =
     (case fetch net (ping_url ip port) 2000 of
        Inr response \<Rightarrow>
          (ok response \<and> status response = 200,
           [Console (ConsoleLog (''Testing connection to '' @ ping_url ip port)),
            FetchGET (ping_url ip port) 2000,
            Console (ConsoleLog (''Connection test result for '' @ ip @ '':''
                                  @ number_to_string port @ '':''))])
      | Inl error \<Rightarrow>
          (False,
           [Console (ConsoleLog (''Testing connection to '' @ ping_url ip port)),
            FetchGET (ping_url ip port) 2000,
            Console (ConsoleLog (''Connection test failed for '' @ ip @ '':''
                                  @ number_to_string port @ '':''))]))"

text \<open>The loop \<open>for (const ip of testIPs)\<close> of \<open>discoverPublisher\<close>.\<close>

fun discover_loop :: "network \<Rightarrow> nat \<Rightarrow> string list \<Rightarrow> string option \<times> effect list" where
  "discover_loop net publisherPort [] =
     (None, [Console (ConsoleLog ''No publisher found at known IPs'')])"
| "discover_loop net publisherPort (ip # ips) =
     (if fst (testConnection net ip publisherPort)
      then (Some ip,
            Console (ConsoleLog (''Testing IP: '' @ ip))
            # snd (testConnection net ip publisherPort)
            @ [Console (ConsoleLog (''Publisher found at '' @ ip @ '':''
                                     @ number_to_string publisherPort))])
      else (fst (discover_loop net publisherPort ips),
            Console (ConsoleLog (''Testing IP: '' @ ip))
            # snd (testConnection net ip publisherPort)
            @ snd (discover_loop net publisherPort ips)))"

definition testIPs :: "string list" where
  "testIPs = [''10.0.0.32'', ''127.0.0.1'', ''localhost'']"

text \<open>
  \<open>testConnection\<close> catches whatever \<open>fetch\<close> throws, so nothing in the loop throws and
  the \<open>catch\<close> branch of \<open>discoverPublisher\<close> is never taken.
\<close>

definition discoverPublisher :: "network \<Rightarrow> string option \<times> effect list" where
  "discoverPublisher net = discover_loop net 27182 testIPs"

text \<open>The URLs requested, in order, and the abort timers set.\<close>

fun requests :: "effect list \<Rightarrow> string list" where
  "requests [] = []"
| "requests (FetchGET u ms # es) = u # requests es"
| "requests (Console c # es) = requests es"

fun timers :: "effect list \<Rightarrow> nat list" where
  "timers [] = []"
| "timers (FetchGET u ms # es) = ms # timers es"
| "timers (Console c # es) = timers es"

text \<open>A candidate is reachable when its probe succeeds.\<close>

definition reachable :: "network \<Rightarrow> nat \<Rightarrow> string \<Rightarrow> bool" where
  "reachable net port ip = fst (testConnection net ip port)"

text \<open>The candidates up to and including the first reachable one.\<close>

fun probed :: "network \<Rightarrow> nat \<Rightarrow> string list \<Rightarrow> string list" where
  "probed net port [] = []"
| "probed net port (ip # ips) =
     (if reachable net port ip then [ip] else ip # probed net port ips)"

section \<open>Properties\<close>

subsection \<open>Bytes and base64\<close>

lemma unat_byte_less: "unat (b :: byte) < 256"
  using unsigned_less [of b, where 'a = nat] by simp

lemma b64_index_char: "i < 64 \<Longrightarrow> b64_index (b64_char i) = Some i"
  by (auto simp: b64_index_def b64_char_def Let_def)

lemma b64_index_pad: "b64_index CHR ''='' = None"
  by (simp add: b64_index_def)

lemma b64_char_not_pad: "i < 64 \<Longrightarrow> b64_char i \<noteq> CHR ''=''"
  using b64_index_char [of i] b64_index_pad by auto

lemma sextet_bounds:
  fixes x y z :: nat
  assumes "x < 256" "y < 256" "z < 256"
  shows "x div 4 < 64" "x mod 4 * 16 + y div 16 < 64" "y mod 16 * 4 + z div 64 < 64"
    "z mod 64 < 64" "x mod 4 * 16 < 64" "y mod 16 * 4 < 64"
  using assms by auto

lemma octet1: "y < 256 \<Longrightarrow> x div 4 * 4 + (x mod 4 * 16 + y div 16) div 16 = (x :: nat)"
  by auto

lemma octet1_last: "x div 4 * 4 + (x mod 4 * 16) div 16 = (x :: nat)"
  by auto

lemma octet2:
  "y < 256 \<Longrightarrow> z < 256 \<Longrightarrow>
   (x mod 4 * 16 + y div 16) mod 16 * 16 + (y mod 16 * 4 + z div 64) div 4 = (y :: nat)"
  by auto

lemma octet2_last:
  "y < 256 \<Longrightarrow> (x mod 4 * 16 + y div 16) mod 16 * 16 + (y mod 16 * 4) div 4 = (y :: nat)"
  by auto

lemma octet3: "z < 256 \<Longrightarrow> (y mod 16 * 4 + z div 64) mod 4 * 64 + z mod 64 = (z :: nat)"
  by auto

lemma b64_group:
  fixes a b c :: byte
  shows "b64_index (b64_char (unat a div 4)) = Some (unat a div 4)"
    and "b64_index (b64_char (unat a mod 4 * 16 + unat b div 16))
           = Some (unat a mod 4 * 16 + unat b div 16)"
    and "b64_index (b64_char (unat b mod 16 * 4 + unat c div 64))
           = Some (unat b mod 16 * 4 + unat c div 64)"
    and "b64_index (b64_char (unat c mod 64)) = Some (unat c mod 64)"
    and "b64_index (b64_char (unat a mod 4 * 16)) = Some (unat a mod 4 * 16)"
    and "b64_index (b64_char (unat b mod 16 * 4)) = Some (unat b mod 16 * 4)"
  using sextet_bounds [OF unat_byte_less [of a] unat_byte_less [of b] unat_byte_less [of c]]
  by (simp_all add: b64_index_char)

lemma b64_group_not_pad:
  fixes b c :: byte
  shows "(b64_char (unat b mod 16 * 4 + unat c div 64) = CHR ''='') = False"
    and "(b64_char (unat c mod 64) = CHR ''='') = False"
    and "(b64_char (unat b mod 16 * 4) = CHR ''='') = False"
  using sextet_bounds [OF unat_byte_less [of b] unat_byte_less [of b] unat_byte_less [of c]]
  by (simp_all add: b64_char_not_pad)

lemma word_of_unat: "(of_nat (unat a) :: byte) = a"
  by simp

lemma b64_octets:
  fixes a b c :: byte
  shows "(of_nat (unat a div 4 * 4 + (unat a mod 4 * 16 + unat b div 16) div 16) :: byte) = a"
    and "(of_nat ((unat a mod 4 * 16 + unat b div 16) mod 16 * 16
                  + (unat b mod 16 * 4 + unat c div 64) div 4) :: byte) = b"
    and "(of_nat ((unat b mod 16 * 4 + unat c div 64) mod 4 * 64 + unat c mod 64) :: byte) = c"
    and "(of_nat (unat a div 4 * 4 + (unat a mod 4 * 16) div 16) :: byte) = a"
    and "(of_nat ((unat a mod 4 * 16 + unat b div 16) mod 16 * 16
                  + (unat b mod 16 * 4) div 4) :: byte) = b"
  using unat_byte_less [of a] unat_byte_less [of b] unat_byte_less [of c]
  by (simp_all only: octet1 octet2 octet3 octet1_last octet2_last word_of_unat)

lemmas b64_step =
  b64_encode.simps b64_decode.simps append.simps b64_group b64_group_not_pad b64_octets
  option.case prod.case if_True if_False simp_thms

lemma b64_decode_encode: "b64_decode (b64_encode bs) = Some bs"
proof (induction bs rule: b64_encode.induct)
  case 1
  show ?case by simp
next
  case (2 a)
  show ?case by (simp only: b64_step)
next
  case (3 a b)
  show ?case by (simp only: b64_step)
next
  case (4 a b c rest)
  then show ?case by (simp only: b64_step)
qed

lemma binary_loop_eq: "binary_loop a i acc = acc @ map fromCharCode (drop i a)"
proof (induction a i acc rule: binary_loop.induct)
  case (1 a i acc)
  show ?case
  proof (cases "i < length a")
    case True
    then show ?thesis
      using "1.IH" by (subst binary_loop.simps) (simp add: Cons_nth_drop_Suc [symmetric])
  next
    case False
    then show ?thesis by (subst binary_loop.simps) simp
  qed
qed

lemma unat_fromCharCode: "unat (fromCharCode b) = unat b"
  unfolding fromCharCode_def
  using unat_byte_less [of b] by (simp add: unsigned_ucast_eq take_bit_nat_eq_self)

lemma fromCharCode_le: "fromCharCode b \<le> 255"
  using unat_byte_less [of b] by (simp add: word_le_nat_alt unat_fromCharCode)

lemma ucast_fromCharCode: "ucast (fromCharCode b) = b"
  unfolding fromCharCode_def by (simp add: ucast_up_ucast_id is_up)

lemma btoa_bytes: "btoa (map fromCharCode bs) = Inr (b64_encode bs)"
proof -
  have "list_all (\<lambda>u. u \<le> 255) (map fromCharCode bs)"
    by (simp add: list_all_iff fromCharCode_le)
  moreover have "map ucast (map fromCharCode bs) = bs"
    by (simp add: ucast_fromCharCode comp_def)
  ultimately show ?thesis
    by (simp only: btoa_def if_True)
qed

lemma arrayBufferToBase64_eq: "arrayBufferToBase64 bs = Inr (b64_encode bs)"
  by (simp add: arrayBufferToBase64_def binary_loop_eq btoa_bytes)

text \<open>
  C5: for every binary image buffer \<open>B\<close>, the image encoding (each byte to its single-byte
  character, then \<open>btoa\<close>) yields a base64 string, and base64-decoding that string gives
  back \<open>B\<close> byte for byte.
\<close>

theorem image_encoding_round_trip:
  "arrayBufferToBase64 B = Inr (b64_encode B) \<and> b64_decode (b64_encode B) = Some B"
  by (simp add: arrayBufferToBase64_eq b64_decode_encode)

theorem image_encoding_round_trip_witness:
  "arrayBufferToBase64 [77, 97, 110, 33] = Inr ''TWFuIQ==''
   \<and> b64_decode ''TWFuIQ=='' = Some [77, 97, 110, 33]"
proof -
  have e: "b64_encode [77, 97, 110, 33] = ''TWFuIQ==''"
    by (simp add: b64_char_def char_of_eq_iff)
  show ?thesis
    using image_encoding_round_trip [of "[77, 97, 110, 33]"] by (simp only: e)
qed

subsection \<open>Little-endian binary32\<close>

lemma ucast_or_push_bit:
  "ucast (b :: byte) OR push_bit 8 (x :: 32 word) = ucast b + push_bit 8 x"
proof -
  have "ucast b AND push_bit 8 x = 0"
    by (rule bit_word_eqI) (auto simp: bit_simps dest: bit_imp_le_length)
  then show ?thesis
    by (simp add: disjunctive_add_eq_or)
qed

lemma unat_ucast_byte: "unat (ucast (b :: byte) :: 32 word) = unat b"
  using unat_byte_less [of b] by (simp add: unsigned_ucast_eq take_bit_nat_eq_self)

lemma le_word_unat4:
  "unat (le_word [b0, b1, b2, b3])
     = unat b0 + 256 * unat b1 + 65536 * unat b2 + 16777216 * unat b3"
proof -
  have "le_word [b0, b1, b2, b3]
      = ucast b0 + 256 * ucast b1 + 65536 * ucast b2 + 16777216 * ucast b3"
    by (simp only: le_word.simps ucast_or_push_bit) (simp add: push_bit_eq_mult)
  then show ?thesis
    using unat_byte_less [of b0] unat_byte_less [of b1] unat_byte_less [of b2]
      unat_byte_less [of b3]
    by (simp add: unat_word_ariths unat_ucast_byte)
qed

lemma nat_and_255: "(x :: nat) AND 255 = x mod 256"
proof -
  have "x AND mask 8 = x mod 2 ^ 8"
    by (simp flip: take_bit_eq_mask add: take_bit_eq_mod)
  then show ?thesis by (simp add: mask_eq_exp_minus_1)
qed

lemma nat_and_fraction: "(x :: nat) AND 8388607 = x mod 8388608"
proof -
  have "x AND mask 23 = x mod 2 ^ 23"
    by (simp flip: take_bit_eq_mask add: take_bit_eq_mod)
  then show ?thesis by (simp add: mask_eq_exp_minus_1)
qed

lemma odd_div_top: "odd (x div m) \<longleftrightarrow> m \<le> x" if "x < 2 * m" for x m :: nat
proof (cases "m \<le> x")
  case True
  with that have "0 < m" "x - m < m" by auto
  with True have "x div m = 1" by (simp add: le_div_geq)
  with True show ?thesis by simp
next
  case False
  then show ?thesis by simp
qed

lemma word_sign: "bit (w :: 32 word) 31 \<longleftrightarrow> 2147483648 \<le> unat w"
proof -
  have "bit w 31 \<longleftrightarrow> bit (unat w) 31"
    by (simp add: bit_unsigned_iff)
  also have "\<dots> \<longleftrightarrow> odd (unat w div 2 ^ 31)"
    by (simp add: bit_iff_odd)
  also have "\<dots> \<longleftrightarrow> 2147483648 \<le> unat w"
    using unsigned_less [of w, where 'a = nat] odd_div_top [of "unat w" 2147483648] by simp
  finally show ?thesis .
qed

lemma word_exponent:
  "unat (drop_bit 23 (w :: 32 word) AND 0xFF) = unat w div 8388608 mod 256"
  by (simp add: unsigned_and_eq drop_bit_eq_div unat_div nat_and_255)

lemma word_fraction: "unat ((w :: 32 word) AND 0x7FFFFF) = unat w mod 8388608"
  by (simp add: unsigned_and_eq nat_and_fraction)

lemma split_mod: "(r + m * q) mod m = r" and split_div: "(r + m * q) div m = q"
  if "r < m" for r m q :: nat
  using that by simp_all

lemma le_sign:
  fixes b0 b1 b2 b3 :: nat
  assumes "b0 < 256" "b1 < 256" "b2 < 256"
  shows "2147483648 \<le> b0 + 256 * b1 + 65536 * b2 + 16777216 * b3 \<longleftrightarrow> 128 \<le> b3"
  using assms by linarith

lemma le_split:
  fixes b0 b1 b2 b3 :: nat
  assumes "b0 < 256" "b1 < 256"
  shows "b0 + 256 * b1 + 65536 * b2 + 16777216 * b3
      = (b2 mod 128 * 65536 + b1 * 256 + b0) + 8388608 * (b2 div 128 + 2 * b3)"
    and "b2 mod 128 * 65536 + b1 * 256 + b0 < 8388608"
proof -
  define q r where "q = b2 div 128" and "r = b2 mod 128"
  have "b2 = 128 * q + r" by (simp add: q_def r_def)
  then have "b0 + 256 * b1 + 65536 * b2 + 16777216 * b3
      = (r * 65536 + b1 * 256 + b0) + 8388608 * (q + 2 * b3)"
    by simp
  then show "b0 + 256 * b1 + 65536 * b2 + 16777216 * b3
      = (b2 mod 128 * 65536 + b1 * 256 + b0) + 8388608 * (b2 div 128 + 2 * b3)"
    by (simp only: q_def r_def)
  have "b2 mod 128 < 128" by simp
  with assms show "b2 mod 128 * 65536 + b1 * 256 + b0 < 8388608" by linarith
qed

lemma le_fraction:
  fixes b0 b1 b2 b3 :: nat
  assumes "b0 < 256" "b1 < 256"
  shows "(b0 + 256 * b1 + 65536 * b2 + 16777216 * b3) mod 8388608
           = b2 mod 128 * 65536 + b1 * 256 + b0"
  by (simp only: le_split [OF assms] split_mod)

lemma exp_split:
  fixes b2 b3 :: nat
  assumes "b2 < 256"
  shows "b2 div 128 + 2 * b3 = (b3 mod 128 * 2 + b2 div 128) + 256 * (b3 div 128)"
    and "b3 mod 128 * 2 + b2 div 128 < 256"
proof -
  define q r where "q = b3 div 128" and "r = b3 mod 128"
  have "b3 = 128 * q + r" by (simp add: q_def r_def)
  then have "b2 div 128 + 2 * b3 = (r * 2 + b2 div 128) + 256 * q"
    by simp
  then show "b2 div 128 + 2 * b3 = (b3 mod 128 * 2 + b2 div 128) + 256 * (b3 div 128)"
    by (simp only: q_def r_def)
  have "b3 mod 128 < 128" by simp
  moreover from assms have "b2 div 128 < 2" by simp
  ultimately show "b3 mod 128 * 2 + b2 div 128 < 256" by linarith
qed

lemma le_exponent:
  fixes b0 b1 b2 b3 :: nat
  assumes "b0 < 256" "b1 < 256" "b2 < 256"
  shows "(b0 + 256 * b1 + 65536 * b2 + 16777216 * b3) div 8388608 mod 256
           = b3 mod 128 * 2 + b2 div 128"
proof -
  have "(b0 + 256 * b1 + 65536 * b2 + 16777216 * b3) div 8388608 = b2 div 128 + 2 * b3"
    by (simp only: le_split [OF assms(1,2)] split_div)
  then show ?thesis
    by (simp only: exp_split [OF assms(3)] split_mod)
qed

lemma float32_of_le_bytes:
  "float32_of_bits (le_word [b0, b1, b2, b3])
     = binary32_value (128 \<le> unat b3) (unat b3 mod 128 * 2 + unat b2 div 128)
         (unat b2 mod 128 * 65536 + unat b1 * 256 + unat b0)"
  unfolding float32_of_bits_def word_sign word_exponent word_fraction le_word_unat4
  using unat_byte_less [of b0] unat_byte_less [of b1] unat_byte_less [of b2]
  by (simp only: le_sign le_exponent le_fraction)

lemma bytesToFloat4:
  "bytesToFloat [b0, b1, b2, b3]
     = Inr (binary32_value (128 \<le> unat b3) (unat b3 mod 128 * 2 + unat b2 div 128)
              (unat b2 mod 128 * 65536 + unat b1 * 256 + unat b0))"
  by (simp add: bytesToFloat_def getFloat32_def float32_of_le_bytes del: le_word.simps)

text \<open>
  C4: for every 4-byte frame-rate payload, decoding reads the bytes as an IEEE-754
  single-precision number in little-endian order (the last byte carries the sign and
  the high exponent bits, the first byte the low fraction bits) and forwards the value to
  the frame-rate callback; the payload \<open>00 00 80 3F\<close> decodes to \<open>1.0\<close>.
\<close>

theorem frame_rate_little_endian:
  assumes "onFPSUpdate s"
  shows "frame_rate_handler [b0, b1, b2, b3] s
           = Inr (s\<lparr>calls := calls s @
                   [FPSUpdate (binary32_value (128 \<le> unat b3)
                      (unat b3 mod 128 * 2 + unat b2 div 128)
                      (unat b2 mod 128 * 65536 + unat b1 * 256 + unat b0))]\<rparr>)
         \<and> frame_rate_handler [0x00, 0x00, 0x80, 0x3F] s
           = Inr (s\<lparr>calls := calls s @ [FPSUpdate (Finite 1)]\<rparr>)"
proof -
  have "binary32_value False 127 0 = Finite 1"
    by (simp add: binary32_value_def)
  then have "bytesToFloat [0x00, 0x00, 0x80, 0x3F] = Inr (Finite 1)"
    by (simp add: bytesToFloat4)
  then show ?thesis
    using assms by (simp add: frame_rate_handler_def bytesToFloat4 invoke_def)
qed

theorem frame_rate_little_endian_witness:
  "onFPSUpdate (setOnFPSUpdate (SocketService ''10.0.0.32'' 27182))
   \<and> frame_rate_handler [0x00, 0x00, 0x80, 0x3F] (setOnFPSUpdate (SocketService ''10.0.0.32'' 27182))
       = Inr ((setOnFPSUpdate (SocketService ''10.0.0.32'' 27182))\<lparr>calls := [FPSUpdate (Finite 1)]\<rparr>)"
proof -
  have h: "onFPSUpdate (setOnFPSUpdate (SocketService ''10.0.0.32'' 27182))"
    by (simp add: setOnFPSUpdate_def SocketService_def)
  have c: "calls (setOnFPSUpdate (SocketService ''10.0.0.32'' 27182)) = []"
    by (simp add: setOnFPSUpdate_def SocketService_def)
  show ?thesis
    using h frame_rate_little_endian [OF h, of 0 0 0 0] by (simp add: c)
qed

text \<open>
  C1 asks that a malformed payload of any of the four categories is caught, logged and
  dropped, and in particular that a frame-rate payload shorter than four bytes does not
  raise to the caller.  The frame-rate listener, unlike the other listeners, has no
  \<open>try\<close>/\<open>catch\<close>: on a three-byte payload \<open>getFloat32\<close> throws a RangeError, which
  leaves the listener.
\<close>

theorem frame_rate_short_payload_raises:
  "frame_rate_handler [0x00, 0x80, 0x3F] (setOnFPSUpdate (SocketService ''10.0.0.32'' 27182))
     = Inl RangeError"
  by (simp add: frame_rate_handler_def bytesToFloat_def getFloat32_def)

subsection \<open>RGB frames\<close>

text \<open>
  C9: an RGB-frame payload that is an \<open>ArrayBuffer\<close> or a \<open>Uint8Array\<close> is encoded (byte to
  character, then base64) and the RGB callback fires with the result; a text payload goes
  to the RGB callback unchanged; for any other shape the event is logged and dropped and
  the RGB callback does not fire.  The listener never throws.
\<close>

theorem update_feed_by_shape:
  assumes "onRGBImageUpdate s"
  shows "update_feed_handler data s =
           Inr (case data of
                  ArrayBuffer bytes \<Rightarrow> s\<lparr>calls := calls s @ [RGBImageUpdate (b64_encode bytes)]\<rparr>
                | Uint8Array bytes \<Rightarrow> s\<lparr>calls := calls s @ [RGBImageUpdate (b64_encode bytes)]\<rparr>
                | String text \<Rightarrow> s\<lparr>calls := calls s @ [RGBImageUpdate text]\<rparr>
                | _ \<Rightarrow> s\<lparr>console := console s
                           @ [ConsoleError ''Unknown data format for update_feed:'']\<rparr>)"
  using assms
  by (cases data)
     (simp_all add: update_feed_handler_def try_catch_def arrayBufferToBase64_eq invoke_def
        console_error_def)

theorem update_feed_by_shape_witness:
  "onRGBImageUpdate (setOnRGBImageUpdate (SocketService ''10.0.0.32'' 27182))
   \<and> update_feed_handler (ArrayBuffer [77, 97, 110])
         (setOnRGBImageUpdate (SocketService ''10.0.0.32'' 27182))
       = Inr ((setOnRGBImageUpdate (SocketService ''10.0.0.32'' 27182))
                \<lparr>calls := [RGBImageUpdate ''TWFu'']\<rparr>)
   \<and> update_feed_handler (String ''TWFu'')
         (setOnRGBImageUpdate (SocketService ''10.0.0.32'' 27182))
       = Inr ((setOnRGBImageUpdate (SocketService ''10.0.0.32'' 27182))
                \<lparr>calls := [RGBImageUpdate ''TWFu'']\<rparr>)
   \<and> update_feed_handler (Number (Finite 7))
         (setOnRGBImageUpdate (SocketService ''10.0.0.32'' 27182))
       = Inr ((setOnRGBImageUpdate (SocketService ''10.0.0.32'' 27182))
                \<lparr>console := [ConsoleError ''Unknown data format for update_feed:'']\<rparr>)"
proof -
  let ?s = "setOnRGBImageUpdate (SocketService ''10.0.0.32'' 27182)"
  have h: "onRGBImageUpdate ?s"
    by (simp add: setOnRGBImageUpdate_def SocketService_def)
  have c: "calls ?s = []" "console ?s = []"
    by (simp_all add: setOnRGBImageUpdate_def SocketService_def)
  show ?thesis
    using h update_feed_by_shape [OF h, of "ArrayBuffer [77, 97, 110]"]
      update_feed_by_shape [OF h, of "String ''TWFu''"]
      update_feed_by_shape [OF h, of "Number (Finite 7)"]
    by (simp add: c b64_char_def char_of_eq_iff)
qed

subsection \<open>Vitals\<close>

lemma handleChipUpdate_returns: "\<exists>s'. handleChipUpdate data s = Inr s'"
  by (simp add: handleChipUpdate_def try_catch_def split: sum.splits)

lemma handleChipUpdate_dropped:
  assumes "get_prop data ''chip_data'' \<in> {Inl TypeError, Inr Undefined, Inr Null}"
  shows "handleChipUpdate data s = Inr (console_error ''Error handling chip update:'' s)"
  using assms by (auto simp: handleChipUpdate_def try_catch_def)

lemma handleChipUpdate_object:
  assumes "get_prop data ''chip_data'' = Inr (Object props)"
  shows "handleChipUpdate data s =
           Inr (invoke (onVitalSignsUpdate s)
                  (VitalSignsUpdate
                     \<lparr>heartrate = field props ''heartrate'',
                      resprate = field props ''resprate'',
                      temp = field props ''temp''\<rparr>
                     (field props ''chip_img'')) s)"
  using assms by (simp add: handleChipUpdate_def try_catch_def)

text \<open>
  C3, as the claim states it, fails: a vitals record whose \<open>chip_data\<close> lacks the heart-rate
  field is not dropped; the vitals callback fires with \<open>heartrate\<close> undefined.
\<close>

theorem missing_heartrate_counterexample:
  "handleChipUpdate
     (Object [(''chip_data'', Object [(''resprate'', Number (Finite 16)),
                                      (''temp'', Number (Finite 37))])])
     (setOnVitalSignsUpdate (SocketService ''10.0.0.32'' 27182))
   = Inr ((setOnVitalSignsUpdate (SocketService ''10.0.0.32'' 27182))
            \<lparr>calls := [VitalSignsUpdate
                         \<lparr>heartrate = Undefined, resprate = Number (Finite 16),
                          temp = Number (Finite 37)\<rparr> Undefined]\<rparr>)
   \<and> calls (setOnVitalSignsUpdate (SocketService ''10.0.0.32'' 27182)) = []"
  by (simp add: handleChipUpdate_def try_catch_def field_def invoke_def
      setOnVitalSignsUpdate_def SocketService_def)

text \<open>
  C3, amended: decoding a vitals payload never raises to the caller.  When the payload is
  \<open>null\<close> or \<open>undefined\<close>, or its \<open>chip_data\<close> is, the error is caught and logged, no
  vitals callback fires and nothing else changes.  When \<open>chip_data\<close> is an object its
  fields are not validated: the vitals callback fires with \<open>heartrate\<close>, \<open>resprate\<close>,
  \<open>temp\<close> and \<open>chip_img\<close> as found, a missing field being passed as \<open>undefined\<close>.
\<close>

theorem vitals_decoding:
  "(\<exists>s'. handleChipUpdate data s = Inr s')
   \<and> (get_prop data ''chip_data'' \<in> {Inl TypeError, Inr Undefined, Inr Null} \<longrightarrow>
        handleChipUpdate data s
          = Inr (s\<lparr>console := console s @ [ConsoleError ''Error handling chip update:'']\<rparr>))
   \<and> (onVitalSignsUpdate s \<and> get_prop data ''chip_data'' = Inr (Object props) \<longrightarrow>
        handleChipUpdate data s
          = Inr (s\<lparr>calls := calls s @
                  [VitalSignsUpdate
                     \<lparr>heartrate = field props ''heartrate'',
                      resprate = field props ''resprate'',
                      temp = field props ''temp''\<rparr>
                     (field props ''chip_img'')]\<rparr>))"
  using handleChipUpdate_returns [of data s] handleChipUpdate_dropped [of data s]
    handleChipUpdate_object [of data props s]
  by (simp add: console_error_def invoke_def)

theorem vitals_decoding_witness:
  "get_prop Undefined ''chip_data'' \<in> {Inl TypeError, Inr Undefined, Inr Null}
   \<and> handleChipUpdate Undefined (setOnVitalSignsUpdate (SocketService ''10.0.0.32'' 27182))
       = Inr ((setOnVitalSignsUpdate (SocketService ''10.0.0.32'' 27182))
                \<lparr>console := [ConsoleError ''Error handling chip update:'']\<rparr>)
   \<and> onVitalSignsUpdate (setOnVitalSignsUpdate (SocketService ''10.0.0.32'' 27182))
   \<and> get_prop (Object [(''chip_data'', Object [(''heartrate'', Number (Finite 72))])])
         ''chip_data''
       = Inr (Object [(''heartrate'', Number (Finite 72))])
   \<and> handleChipUpdate (Object [(''chip_data'', Object [(''heartrate'', Number (Finite 72))])])
         (setOnVitalSignsUpdate (SocketService ''10.0.0.32'' 27182))
       = Inr ((setOnVitalSignsUpdate (SocketService ''10.0.0.32'' 27182))
                \<lparr>calls := [VitalSignsUpdate
                             \<lparr>heartrate = Number (Finite 72), resprate = Undefined,
                              temp = Undefined\<rparr> Undefined]\<rparr>)"
proof -
  let ?s = "setOnVitalSignsUpdate (SocketService ''10.0.0.32'' 27182)"
  let ?d = "Object [(''chip_data'', Object [(''heartrate'', Number (Finite 72))])]"
  have h: "onVitalSignsUpdate ?s" "calls ?s = []" "console ?s = []"
    by (simp_all add: setOnVitalSignsUpdate_def SocketService_def)
  have g: "get_prop ?d ''chip_data'' = Inr (Object [(''heartrate'', Number (Finite 72))])"
    by (simp add: field_def)
  show ?thesis
    using vitals_decoding [of Undefined ?s "[]"]
      vitals_decoding [of ?d ?s "[(''heartrate'', Number (Finite 72))]"]
    by (simp add: h g field_def)
qed

subsection \<open>Discovery\<close>

lemma requests_append: "requests (es @ fs) = requests es @ requests fs"
  by (induction es rule: requests.induct) simp_all

lemma timers_append: "timers (es @ fs) = timers es @ timers fs"
  by (induction es rule: timers.induct) simp_all

lemma testConnection_requests: "requests (snd (testConnection net ip port)) = [ping_url ip port]"
  by (simp add: testConnection_def split: sum.splits)

lemma testConnection_timers: "timers (snd (testConnection net ip port)) = [2000]"
  by (simp add: testConnection_def split: sum.splits)

lemma testConnection_iff:
  "fst (testConnection net ip port) \<longleftrightarrow> (\<exists>t<2000. net (ping_url ip port) = Responds t 200)"
  by (auto simp: testConnection_def fetch_def ok_def split: sum.splits fetch_behaviour.splits
      if_splits)

text \<open>
  C7: the liveness probe of a candidate requests \<open>http://<ip>:<port>/ping\<close> with GET, once,
  under a 2000 ms abort timer; it returns true exactly when a response with status 200
  arrives before the timer fires, and false (it never throws) for any other status, a
  failed request or no answer in time.
\<close>

theorem testConnection_probe:
  "requests (snd (testConnection net ip port))
     = [''http://'' @ ip @ '':'' @ number_to_string port @ ''/ping'']
   \<and> timers (snd (testConnection net ip port)) = [2000]
   \<and> (fst (testConnection net ip port)
        \<longleftrightarrow> (\<exists>t<2000. net (''http://'' @ ip @ '':'' @ number_to_string port @ ''/ping'')
                          = Responds t 200))"
  using testConnection_iff [of net ip port]
  by (simp add: testConnection_requests testConnection_timers ping_url_def)

theorem testConnection_probe_witness:
  "requests (snd (testConnection (\<lambda>u. if u = ''http://127.0.0.1:27182/ping''
                                        then Responds 35 200 else Hangs) ''127.0.0.1'' 27182))
     = [''http://127.0.0.1:27182/ping'']
   \<and> fst (testConnection (\<lambda>u. if u = ''http://127.0.0.1:27182/ping''
                                then Responds 35 200 else Hangs) ''127.0.0.1'' 27182)
   \<and> \<not> fst (testConnection (\<lambda>u. if u = ''http://127.0.0.1:27182/ping''
                                  then Responds 2000 200 else Hangs) ''127.0.0.1'' 27182)
   \<and> \<not> fst (testConnection (\<lambda>u. if u = ''http://127.0.0.1:27182/ping''
                                  then Responds 35 204 else Hangs) ''127.0.0.1'' 27182)
   \<and> \<not> fst (testConnection (\<lambda>u. Fails 10) ''127.0.0.1'' 27182)"
proof -
  have p: "number_to_string 27182 = ''27182''"
    by (simp add: number_to_string.simps digit_char_def char_of_eq_iff)
  show ?thesis
    using testConnection_probe [of "\<lambda>u. if u = ''http://127.0.0.1:27182/ping''
                                         then Responds 35 200 else Hangs" "''127.0.0.1''" 27182]
      testConnection_probe [of "\<lambda>u. if u = ''http://127.0.0.1:27182/ping''
                                     then Responds 2000 200 else Hangs" "''127.0.0.1''" 27182]
      testConnection_probe [of "\<lambda>u. if u = ''http://127.0.0.1:27182/ping''
                                     then Responds 35 204 else Hangs" "''127.0.0.1''" 27182]
      testConnection_probe [of "\<lambda>u. Fails 10" "''127.0.0.1''" 27182]
    by (simp add: p)
qed

lemma discover_loop_result:
  "fst (discover_loop net port ips) = find (reachable net port) ips"
  by (induction ips) (simp_all add: reachable_def)

lemma discover_loop_requests:
  "requests (snd (discover_loop net port ips)) = map (\<lambda>ip. ping_url ip port) (probed net port ips)"
  by (induction ips)
     (simp_all add: reachable_def requests_append testConnection_requests)

lemma probed_prefix:
  "probed net port ips
     = takeWhile (\<lambda>ip. \<not> reachable net port ip) ips
       @ take 1 (dropWhile (\<lambda>ip. \<not> reachable net port ip) ips)"
  by (induction ips) simp_all

text \<open>
  C6: discovery probes the candidates in list order, one after the other, up to and
  including the first whose probe succeeds, and returns that candidate; when every probe
  fails it returns none (it never throws).  With candidates \<open>[A, B, C]\<close> of which only
  \<open>C\<close> is reachable, \<open>A\<close>, \<open>B\<close> and \<open>C\<close> are probed in that order and \<open>C\<close> is returned.
  \<open>discoverPublisher\<close> runs this loop on its three fixed candidates.
\<close>

theorem discovery_in_order:
  "fst (discover_loop net port ips) = find (reachable net port) ips
   \<and> requests (snd (discover_loop net port ips))
       = map (\<lambda>ip. ping_url ip port)
           (takeWhile (\<lambda>ip. \<not> reachable net port ip) ips
            @ take 1 (dropWhile (\<lambda>ip. \<not> reachable net port ip) ips))
   \<and> ((\<forall>ip \<in> set ips. \<not> reachable net port ip) \<longrightarrow>
        fst (discover_loop net port ips) = None
        \<and> requests (snd (discover_loop net port ips)) = map (\<lambda>ip. ping_url ip port) ips)
   \<and> (\<not> reachable net port A \<and> \<not> reachable net port B \<and> reachable net port C \<longrightarrow>
        fst (discover_loop net port [A, B, C]) = Some C
        \<and> requests (snd (discover_loop net port [A, B, C]))
            = [ping_url A port, ping_url B port, ping_url C port])
   \<and> discoverPublisher net
       = discover_loop net 27182 [''10.0.0.32'', ''127.0.0.1'', ''localhost'']"
proof -
  have all_fail: "find (reachable net port) ips = None"
    "takeWhile (\<lambda>ip. \<not> reachable net port ip) ips = ips"
    "dropWhile (\<lambda>ip. \<not> reachable net port ip) ips = []"
    if "\<forall>ip \<in> set ips. \<not> reachable net port ip"
    using that by (simp_all add: find_None_iff)
  show ?thesis
    by (simp add: discover_loop_result discover_loop_requests probed_prefix all_fail
        discoverPublisher_def testIPs_def del: discover_loop.simps)
qed

theorem discovery_in_order_witness:
  "\<not> reachable (\<lambda>u. if u = ''http://localhost:27182/ping'' then Responds 12 200 else Fails 3)
       27182 ''10.0.0.32''
   \<and> \<not> reachable (\<lambda>u. if u = ''http://localhost:27182/ping'' then Responds 12 200 else Fails 3)
       27182 ''127.0.0.1''
   \<and> reachable (\<lambda>u. if u = ''http://localhost:27182/ping'' then Responds 12 200 else Fails 3)
       27182 ''localhost''
   \<and> fst (discoverPublisher
            (\<lambda>u. if u = ''http://localhost:27182/ping'' then Responds 12 200 else Fails 3))
       = Some ''localhost''
   \<and> requests (snd (discoverPublisher
            (\<lambda>u. if u = ''http://localhost:27182/ping'' then Responds 12 200 else Fails 3)))
       = [''http://10.0.0.32:27182/ping'', ''http://127.0.0.1:27182/ping'',
          ''http://localhost:27182/ping'']
   \<and> \<not> reachable (\<lambda>u. Hangs) 27182 ''10.0.0.32''
   \<and> \<not> reachable (\<lambda>u. Hangs) 27182 ''127.0.0.1''
   \<and> \<not> reachable (\<lambda>u. Hangs) 27182 ''localhost''
   \<and> fst (discoverPublisher (\<lambda>u. Hangs)) = None"
proof -
  let ?net = "\<lambda>u. if u = ''http://localhost:27182/ping'' then Responds 12 200 else Fails 3"
  have p: "number_to_string 27182 = ''27182''"
    by (simp add: number_to_string.simps digit_char_def char_of_eq_iff)
  have r: "\<not> reachable ?net 27182 ''10.0.0.32''" "\<not> reachable ?net 27182 ''127.0.0.1''"
    "reachable ?net 27182 ''localhost''"
    by (simp_all add: reachable_def testConnection_def fetch_def ok_def ping_url_def p)
  have h: "\<forall>ip \<in> set [''10.0.0.32'', ''127.0.0.1'', ''localhost'']. \<not> reachable (\<lambda>u. Hangs) 27182 ip"
    by (simp add: reachable_def testConnection_def fetch_def)
  show ?thesis
    using r h
      discovery_in_order [of ?net 27182 "[]" "''10.0.0.32''" "''127.0.0.1''" "''localhost''"]
      discovery_in_order [of "\<lambda>u. Hangs" 27182 "[''10.0.0.32'', ''127.0.0.1'', ''localhost'']"]
    by (simp add: ping_url_def p del: discover_loop.simps)
qed

subsection \<open>Hostnames of the URLs the service builds\<close>

lemma of_char_digit_char: "d < 10 \<Longrightarrow> (of_char (digit_char d) :: nat) = 48 + d"
  by (simp add: digit_char_def)

lemma is_digit_digit_char: "d < 10 \<Longrightarrow> is_digit (digit_char d)"
  by (simp add: is_digit_def of_char_digit_char)

lemma digit_of_digit_char: "d < 10 \<Longrightarrow> digit_of 10 (digit_char d) = Some d"
  by (simp add: digit_of_def of_char_digit_char)

lemma digits_number_to_string: "list_all is_digit (number_to_string n)"
proof (induction n rule: number_to_string.induct)
  case (1 n)
  then show ?case
    by (subst number_to_string.simps) (simp add: is_digit_digit_char)
qed

lemma number_to_string_nonempty: "number_to_string n \<noteq> []"
  by (subst number_to_string.simps) simp

lemma parse_radix_append:
  "parse_radix r (xs @ ys) acc
     = (case parse_radix r xs acc of None \<Rightarrow> None | Some a \<Rightarrow> parse_radix r ys a)"
  by (induction xs arbitrary: acc) (simp_all split: option.splits)

lemma parse_number_to_string: "parse_radix 10 (number_to_string n) 0 = Some n"
proof (induction n rule: number_to_string.induct)
  case (1 n)
  show ?case
  proof (cases "10 \<le> n")
    case True
    with 1 show ?thesis
      by (subst number_to_string.simps) (simp add: parse_radix_append digit_of_digit_char)
  next
    case False
    then show ?thesis
      by (subst number_to_string.simps) (simp add: digit_of_digit_char)
  qed
qed

lemma hd_number_to_string: "0 < n \<Longrightarrow> hd (number_to_string n) \<noteq> CHR ''0''"
proof (induction n rule: number_to_string.induct)
  case (1 n)
  show ?case
  proof (cases "10 \<le> n")
    case True
    then have "0 < n div 10" by simp
    with 1 True have "hd (number_to_string (n div 10)) \<noteq> CHR ''0''" by simp
    with True show ?thesis
      by (subst number_to_string.simps) (simp add: number_to_string_nonempty)
  next
    case False
    with "1.prems" have "(of_char (digit_char n) :: nat) \<noteq> of_char CHR ''0''"
      by (simp add: of_char_digit_char)
    then have "digit_char n \<noteq> CHR ''0''" by auto
    with False show ?thesis
      by (subst number_to_string.simps) simp
  qed
qed

lemma number_to_string_0: "number_to_string 0 = ''0''"
  by (simp add: number_to_string.simps digit_char_def char_of_eq_iff)

lemma parse_ipv4_number_decimal: "parse_ipv4_number (number_to_string n) = Some n"
proof (cases "n = 0")
  case True
  then show ?thesis
    by (simp add: number_to_string_0 parse_ipv4_number_def digit_of_def)
next
  case False
  then have h: "hd (number_to_string n) \<noteq> CHR ''0''"
    by (simp add: hd_number_to_string)
  obtain c cs where cs: "number_to_string n = c # cs"
    using number_to_string_nonempty [of n] by (cases "number_to_string n") auto
  with h have "c \<noteq> CHR ''0''" by simp
  then have "take 2 (c # cs) \<noteq> ''0x''" "take 2 (c # cs) \<noteq> ''0X''" "take 1 (c # cs) \<noteq> ''0''"
    by (cases cs; simp)+
  then show ?thesis
    using parse_number_to_string [of n]
    by (simp only: parse_ipv4_number_def cs [symmetric]) (simp add: cs)
qed

lemma split_on_nonempty: "split_on d xs \<noteq> []"
  by (induction xs) (simp_all split: list.splits)

lemma split_on_none: "d \<notin> set xs \<Longrightarrow> split_on d xs = [xs]"
  by (induction xs) auto

lemma split_on_first: "d \<notin> set xs \<Longrightarrow> split_on d (xs @ d # ys) = xs # split_on d ys"
  by (induction xs) auto

lemma digit_not_sep: "is_digit c \<Longrightarrow> c \<noteq> CHR ''.'' \<and> c \<noteq> CHR '':''"
  by (auto simp: is_digit_def)

lemma number_to_string_no_sep:
  "CHR ''.'' \<notin> set (number_to_string n)" "CHR '':'' \<notin> set (number_to_string n)"
  using digits_number_to_string [of n] digit_not_sep by (auto simp: list_all_iff)

lemma split_ipv4_string:
  "split_on CHR ''.'' (ipv4_string a b c d)
     = [number_to_string a, number_to_string b, number_to_string c, number_to_string d]"
  by (simp add: ipv4_string_def split_on_first split_on_none number_to_string_no_sep)

lemma ascii_lower_digit: "is_digit c \<Longrightarrow> ascii_lower c = c"
  by (simp add: is_digit_def ascii_lower_def)

lemma lower_number_to_string: "map ascii_lower (number_to_string n) = number_to_string n"
  using digits_number_to_string [of n]
  by (simp add: list_all_iff ascii_lower_digit map_idI)

lemma lower_ipv4_string: "map ascii_lower (ipv4_string a b c d) = ipv4_string a b c d"
  by (simp add: ipv4_string_def lower_number_to_string ascii_lower_def)

lemma host_chars_number: "list_all host_char (number_to_string n)"
  using digits_number_to_string [of n] by (simp add: list_all_iff host_char_def)

lemma host_chars_ipv4_string: "list_all host_char (ipv4_string a b c d)"
  by (simp add: ipv4_string_def host_chars_number) (simp add: host_char_def)

lemma not_punycode_number: "take 4 (number_to_string n) \<noteq> ''xn--''"
proof -
  obtain c cs where cs: "number_to_string n = c # cs"
    using number_to_string_nonempty [of n] by (cases "number_to_string n") auto
  with digits_number_to_string [of n] have "is_digit c" by simp
  then have "c \<noteq> CHR ''x''" by (auto simp: is_digit_def)
  with cs show ?thesis by simp
qed

lemma ends_in_number_ipv4_string: "ends_in_number (ipv4_string a b c d)"
  by (simp add: ends_in_number_def split_ipv4_string number_to_string_nonempty
      digits_number_to_string)

lemma ipv4_parser_ipv4_string:
  assumes "a \<le> 255" "b \<le> 255" "c \<le> 255" "d \<le> 255"
  shows "ipv4_parser (ipv4_string a b c d) = Some (d + (a * 16777216 + b * 65536 + c * 256))"
  using assms
  by (simp add: ipv4_parser_def split_ipv4_string number_to_string_nonempty
      parse_ipv4_number_decimal Let_def numeral_3_eq_3)

lemma octets:
  fixes a b c d :: nat
  assumes "b \<le> 255" "c \<le> 255" "d \<le> 255"
  shows "(d + (a * 16777216 + b * 65536 + c * 256)) mod 256 = d"
    and "(d + (a * 16777216 + b * 65536 + c * 256)) div 256 mod 256 = c"
    and "(d + (a * 16777216 + b * 65536 + c * 256)) div 65536 mod 256 = b"
    and "a \<le> 255 \<Longrightarrow> (d + (a * 16777216 + b * 65536 + c * 256)) div 16777216 mod 256 = a"
proof -
  have 1: "d + (a * 16777216 + b * 65536 + c * 256) = d + 256 * (c + 256 * (b + 256 * a))"
    by simp
  have 2: "d + (a * 16777216 + b * 65536 + c * 256) = (d + 256 * c) + 65536 * (b + 256 * a)"
    by simp
  have 3: "d + (a * 16777216 + b * 65536 + c * 256) = (d + 256 * c + 65536 * b) + 16777216 * a"
    by simp
  from assms have lt: "d < 256" "c < 256" "b < 256" "d + 256 * c < 65536"
    "d + 256 * c + 65536 * b < 16777216"
    by simp_all
  show "(d + (a * 16777216 + b * 65536 + c * 256)) mod 256 = d"
    using lt by (simp only: 1 mod_mult_self2 mod_less)
  have "(d + (a * 16777216 + b * 65536 + c * 256)) div 256 = c + 256 * (b + 256 * a)"
    using lt by (simp only: 1, (simp)?)
  then show "(d + (a * 16777216 + b * 65536 + c * 256)) div 256 mod 256 = c"
    using lt by (simp only: mod_mult_self2 mod_less)
  have "(d + (a * 16777216 + b * 65536 + c * 256)) div 65536 = b + 256 * a"
    using lt by (simp only: 2, (simp)?)
  then show "(d + (a * 16777216 + b * 65536 + c * 256)) div 65536 mod 256 = b"
    using lt by (simp only: mod_mult_self2 mod_less)
  have "(d + (a * 16777216 + b * 65536 + c * 256)) div 16777216 = a"
    using lt by (simp only: 3, (simp)?)
  then show "a \<le> 255 \<Longrightarrow> (d + (a * 16777216 + b * 65536 + c * 256)) div 16777216 mod 256 = a"
    by simp
qed

lemma ipv4_serializer_octets:
  assumes "a \<le> 255" "b \<le> 255" "c \<le> 255" "d \<le> 255"
  shows "ipv4_serializer (d + (a * 16777216 + b * 65536 + c * 256)) = ipv4_string a b c d"
  unfolding ipv4_serializer_def by (simp only: octets [OF assms(2,3,4)] octets(4) [OF assms(2,3,4,1)])

lemma host_parser_ipv4_string:
  assumes "a \<le> 255" "b \<le> 255" "c \<le> 255" "d \<le> 255"
  shows "host_parser (ipv4_string a b c d) = Some (ipv4_string a b c d)"
proof -
  have ne: "ipv4_string a b c d \<noteq> []"
    by (simp add: ipv4_string_def)
  show ?thesis
    by (simp add: host_parser_def lower_ipv4_string ne split_ipv4_string not_punycode_number
        ends_in_number_ipv4_string ipv4_parser_ipv4_string [OF assms]
        ipv4_serializer_octets [OF assms] Let_def)
qed

lemma no_colon_ipv4_string: "CHR '':'' \<notin> set (ipv4_string a b c d)"
  by (simp add: ipv4_string_def number_to_string_no_sep)

lemma url_hostname_ipv4_string:
  assumes "a \<le> 255" "b \<le> 255" "c \<le> 255" "d \<le> 255" "port \<le> 65535"
  shows "url_hostname (mk_url (ipv4_string a b c d) port) = Some (ipv4_string a b c d)"
proof -
  let ?h = "ipv4_string a b c d"
  have t: "takeWhile (\<lambda>c. c \<noteq> CHR '':'') (?h @ CHR '':'' # number_to_string port) = ?h"
    using no_colon_ipv4_string [of a b c d] by (simp add: takeWhile_append)
  have d: "dropWhile (\<lambda>c. c \<noteq> CHR '':'') (?h @ CHR '':'' # number_to_string port)
      = CHR '':'' # number_to_string port"
    using no_colon_ipv4_string [of a b c d] by (simp add: dropWhile_append)
  show ?thesis
    using assms(5)
    by (simp add: url_hostname_def mk_url_def t d host_chars_ipv4_string parse_number_to_string
        host_parser_ipv4_string [OF assms(1-4)] Let_def)
qed

lemmas url_eval =
  url_hostname_def mk_url_def number_to_string.simps digit_char_def char_of_eq_iff
  host_char_def is_digit_def is_letter_def host_parser_def ascii_lower_def ends_in_number_def
  parse_ipv4_number_def digit_of_def ipv4_parser_def ipv4_serializer_def ipv4_string_def Let_def

lemma url_hostname_10_0_0_32: "url_hostname (mk_url ''10.0.0.32'' 27182) = Some ''10.0.0.32''"
  by (simp add: url_eval)

subsection \<open>Connection lifecycle\<close>

lemma on_disconnect_fields:
  "sockets (on_disconnect s) = sockets s"
  "socket (on_disconnect s) = socket s"
  "publisherUrl (on_disconnect s) = publisherUrl s"
  "isConnected (on_disconnect s) = False"
  "onConnectionStatusChange (on_disconnect s) = onConnectionStatusChange s"
  "calls (on_disconnect s)
     = calls s @ (if onConnectionStatusChange s
                  then [ConnectionStatusChange Inactive ''Disconnected''] else [])"
  by (simp_all add: on_disconnect_def console_log_def notify_status_def Let_def)

lemma sio_disconnect_fields:
  "sockets (sio_disconnect i s) = (sockets s)[i := (sockets s ! i)\<lparr>sock_state := Closed\<rparr>]"
  "socket (sio_disconnect i s) = socket s"
  "publisherUrl (sio_disconnect i s) = publisherUrl s"
  "isConnected (sio_disconnect i s) = False"
  "onConnectionStatusChange (sio_disconnect i s) = onConnectionStatusChange s"
  "calls (sio_disconnect i s)
     = calls s @ (if onConnectionStatusChange s
                  then [ConnectionStatusChange Inactive ''Disconnected''] else [])"
  by (simp_all add: sio_disconnect_def on_disconnect_fields set_sock_state_def)


lemma connect_idle:
  assumes "\<not> socket_connected s"
  shows "sockets (connect s) = sockets s @ [io (publisherUrl s)]"
    and "socket (connect s) = Some (length (sockets s))"
    and "calls (connect s) = calls s"
    and "publisherUrl (connect s) = publisherUrl s"
    and "isConnected (connect s) = isConnected s"
    and "onConnectionStatusChange (connect s) = onConnectionStatusChange s"
  using assms by (simp_all add: connect_def console_log_def Let_def split: option.splits)



lemma disconnect_connected:
  assumes "socket s = Some i" "socket_connected s"
  shows "sockets (disconnect s) = (sockets s)[i := (sockets s ! i)\<lparr>sock_state := Closed\<rparr>]"
    and "socket (disconnect s) = socket s"
    and "calls (disconnect s)
           = calls s @ (if onConnectionStatusChange s
                        then [ConnectionStatusChange Inactive ''Disconnected''] else [])"
    and "publisherUrl (disconnect s) = publisherUrl s"
    and "isConnected (disconnect s) = False"
    and "onConnectionStatusChange (disconnect s) = onConnectionStatusChange s"
  using assms by (simp_all add: disconnect_def sio_disconnect_fields)


lemma socket_connected_url [simp]:
  "socket_connected (s\<lparr>publisherUrl := u\<rparr>) = socket_connected s"
  by (simp add: socket_connected_def split: option.splits)

lemma map_update_same: "f y = f (xs ! i) \<Longrightarrow> map f (xs[i := y]) = map f xs"
  by (induction xs arbitrary: i) (auto split: nat.splits)

lemma changeConnection_fields:
  "map sock_state (sockets (changeConnection newIP port s))
     = map sock_state (sockets (connect (s\<lparr>publisherUrl := mk_url newIP port\<rparr>)))"
  "map sock_url (sockets (changeConnection newIP port s))
     = map sock_url (sockets (connect (s\<lparr>publisherUrl := mk_url newIP port\<rparr>)))"
  "socket (changeConnection newIP port s)
     = socket (connect (s\<lparr>publisherUrl := mk_url newIP port\<rparr>))"
  "calls (changeConnection newIP port s)
     = calls (connect (s\<lparr>publisherUrl := mk_url newIP port\<rparr>))"
  "publisherUrl (changeConnection newIP port s)
     = publisherUrl (connect (s\<lparr>publisherUrl := mk_url newIP port\<rparr>))"
  by (simp_all add: changeConnection_def catch_console_error_def Let_def map_update_same)

lemma io_fields [simp]:
  "sock_url (io u) = u" "sock_state (io u) = Connecting" "live (io u)"
  by (simp_all add: io_def live_def)














lemma socket_connected_isConnected [simp]:
  "socket_connected (s\<lparr>isConnected := b\<rparr>) = socket_connected s"
  by (simp add: socket_connected_def split: option.splits)









subsection \<open>Status notifications\<close>

lemma deliver_closed:
  assumes "\<forall>k \<in> set (sockets s). sock_state k = Closed"
  shows "deliver hostname_of i ev s = s"
proof (cases "i < length (sockets s)")
  case True
  with assms have "sock_state (sockets s ! i) = Closed" by simp
  with True show ?thesis by (cases ev) (simp_all add: deliver_def)
next
  case False
  then show ?thesis by (simp add: deliver_def)
qed

lemma deliver_all_closed:
  assumes "\<forall>k \<in> set (sockets s). sock_state k = Closed"
  shows "deliver_all hostname_of evs s = s"
  using assms
proof (induction evs)
  case Nil
  show ?case by simp
next
  case (Cons e evs)
  then show ?case by (cases e) (simp add: deliver_closed)
qed

lemma fresh_handshake:
  assumes "sockets s = []" "onConnectionStatusChange s"
    "hostname_of (publisherUrl s) = Some address"
  shows "calls (deliver hostname_of 0 EvConnect (connect s))
           = calls s @ [ConnectionStatusChange Active address]"
    and "socket (deliver hostname_of 0 EvConnect (connect s)) = Some 0"
    and "map sock_state (sockets (deliver hostname_of 0 EvConnect (connect s))) = [Connected]"
    and "onConnectionStatusChange (deliver hostname_of 0 EvConnect (connect s))"
proof -
  have idle: "\<not> socket_connected s"
    using assms(1) by (simp add: socket_connected_def split: option.splits)
  note c = connect_idle [OF idle]
  show "calls (deliver hostname_of 0 EvConnect (connect s))
           = calls s @ [ConnectionStatusChange Active address]"
    and "socket (deliver hostname_of 0 EvConnect (connect s)) = Some 0"
    and "map sock_state (sockets (deliver hostname_of 0 EvConnect (connect s))) = [Connected]"
    and "onConnectionStatusChange (deliver hostname_of 0 EvConnect (connect s))"
    using assms
    by (simp_all add: deliver_def c set_sock_state_def on_connect_def console_log_def Let_def
        notify_status_def getIPFromUrl_def setupEventHandlers_def settle_def io_def)
qed

text \<open>
  C8: on a fresh service with a status callback, a successful handshake gives the callback
  exactly one \<open>(Active, address)\<close>; a manual \<open>disconnect()\<close> after it adds exactly one
  \<open>(Inactive, "Disconnected")\<close>; and whatever the socket layer does afterwards, the
  status callback is not invoked again.
\<close>

theorem handshake_then_disconnect:
  assumes "sockets s = []" and "onConnectionStatusChange s"
    and "hostname_of (publisherUrl s) = Some address"
  shows "calls (deliver hostname_of 0 EvConnect (connect s))
           = calls s @ [ConnectionStatusChange Active address]
         \<and> calls (disconnect (deliver hostname_of 0 EvConnect (connect s)))
           = calls s @ [ConnectionStatusChange Active address,
                        ConnectionStatusChange Inactive ''Disconnected'']
         \<and> calls (deliver_all hostname_of evs
                    (disconnect (deliver hostname_of 0 EvConnect (connect s))))
           = calls s @ [ConnectionStatusChange Active address,
                        ConnectionStatusChange Inactive ''Disconnected'']"
proof -
  let ?h = "deliver hostname_of 0 EvConnect (connect s)"
  note h = fresh_handshake [where hostname_of = hostname_of, OF assms]
  have conn: "socket_connected ?h"
    using h(2) arg_cong [OF h(3), of length] arg_cong [OF h(3), of "\<lambda>xs. xs ! 0"]
    by (simp add: socket_connected_def)
  note d = disconnect_connected [OF h(2) conn]
  have "map sock_state (sockets (disconnect ?h)) = [Closed]"
    using h(3) by (simp add: d(1) map_update)
  then have closed: "\<forall>k \<in> set (sockets (disconnect ?h)). sock_state k = Closed"
    by (cases "sockets (disconnect ?h)") auto
  show ?thesis
    using h(4) by (simp add: deliver_all_closed [OF closed] d(3) h(1))
qed

theorem handshake_then_disconnect_witness:
  "sockets (setOnConnectionStatusChange (SocketService ''10.0.0.32'' 27182)) = []
   \<and> onConnectionStatusChange (setOnConnectionStatusChange (SocketService ''10.0.0.32'' 27182))
   \<and> url_hostname (publisherUrl (setOnConnectionStatusChange (SocketService ''10.0.0.32'' 27182)))
       = Some ''10.0.0.32''
   \<and> calls (deliver_all url_hostname [(0, EvConnect), (0, EvDisconnect True), (1, EvConnect)]
        (disconnect (deliver url_hostname 0 EvConnect
           (connect (setOnConnectionStatusChange (SocketService ''10.0.0.32'' 27182))))))
       = [ConnectionStatusChange Active ''10.0.0.32'',
          ConnectionStatusChange Inactive ''Disconnected'']"
proof -
  let ?s = "setOnConnectionStatusChange (SocketService ''10.0.0.32'' 27182)"
  have a: "sockets ?s = []" "onConnectionStatusChange ?s" "calls ?s = []"
    by (simp_all add: setOnConnectionStatusChange_def SocketService_def)
  have b: "url_hostname (publisherUrl ?s) = Some ''10.0.0.32''"
    by (simp add: setOnConnectionStatusChange_def SocketService_def url_hostname_10_0_0_32)
  show ?thesis
    using a b
      handshake_then_disconnect [where hostname_of = url_hostname
        and evs = "[(0, EvConnect), (0, EvDisconnect True), (1, EvConnect)]", OF a(1) a(2) b]
    by simp
qed

subsection \<open>The configured address\<close>

lemma settle_url [simp]: "publisherUrl (settle i p s) = publisherUrl s"
  by (simp add: settle_def console_error_def Let_def)

lemma deliver_url [simp]: "publisherUrl (deliver hostname_of i ev s) = publisherUrl s"
  by (cases ev; cases "sock_state (sockets s ! i)")
     (simp_all add: deliver_def on_connect_def on_connect_error_def on_disconnect_fields
        set_sock_state_def console_log_def console_error_def notify_status_def
        setupEventHandlers_def Let_def split: option.splits)

lemma connect_url [simp]: "publisherUrl (connect s) = publisherUrl s"
  by (simp add: connect_def console_log_def Let_def sio_disconnect_fields split: option.splits)

lemma disconnect_url [simp]: "publisherUrl (disconnect s) = publisherUrl s"
  by (simp add: disconnect_def sio_disconnect_fields split: option.splits)

lemma run_url: "publisherUrl (run hostname_of steps s) = publisherUrl s"
  by (induction hostname_of steps s rule: run.induct) simp_all

lemma changeConnection_url: "publisherUrl (changeConnection newIP port s) = mk_url newIP port"
  by (simp add: changeConnection_fields)

lemma getConnectedIP_run:
  "getConnectedIP hostname_of (run hostname_of steps s)
     = (case hostname_of (publisherUrl s) of Some h \<Rightarrow> h | None \<Rightarrow> ''Unknown'')"
  by (simp add: getConnectedIP_def getIPFromUrl_def run_url)

text \<open>
  C10, as the claim states it, fails: \<open>getConnectedIP()\<close> returns the hostname the URL
  parser makes of the address, which is not always the address given.  \<open>010.0.0.1\<close>
  (which the app's own address check accepts) is read as an IPv4 address with an octal
  first part and comes back as \<open>8.0.0.1\<close>; \<open>Example.COM\<close> comes back lower-cased;
  \<open>999.0.0.1\<close> is not a valid host, so the URL does not parse and the answer is
  \<open>Unknown\<close>.
\<close>

theorem normalised_address_counterexample:
  "getConnectedIP url_hostname (SocketService ''010.0.0.1'' 27182) = ''8.0.0.1''
   \<and> getConnectedIP url_hostname
         (changeConnection ''010.0.0.1'' 27182 (SocketService ''10.0.0.32'' 27182)) = ''8.0.0.1''
   \<and> getConnectedIP url_hostname
         (changeConnection ''Example.COM'' 27182 (SocketService ''10.0.0.32'' 27182))
       = ''example.com''
   \<and> getConnectedIP url_hostname
         (changeConnection ''999.0.0.1'' 27182 (SocketService ''10.0.0.32'' 27182))
       = ''Unknown''"
proof -
  have "url_hostname (mk_url ''010.0.0.1'' 27182) = Some ''8.0.0.1''"
    and "url_hostname (mk_url ''Example.COM'' 27182) = Some ''example.com''"
    and "url_hostname (mk_url ''999.0.0.1'' 27182) = None"
    by (simp_all add: url_eval)
  then show ?thesis
    by (simp add: getConnectedIP_def getIPFromUrl_def changeConnection_url)
       (simp add: SocketService_def)
qed

text \<open>
  C10, amended: \<open>getConnectedIP()\<close> returns the hostname the URL parser gives for the
  configured publisher URL, or \<open>Unknown\<close> when that URL does not parse, whatever the
  connection state: no sequence of \<open>connect\<close>, \<open>disconnect\<close> and socket events changes
  it.  After the constructor, and after \<open>changeConnection(newIP)\<close>, it is the hostname of
  \<open>http://<address>:<port>\<close>, whether the connection is pending, failed or closed.  That
  hostname is the address itself when the address is an IPv4 address in canonical form
  (four decimal octets from 0 to 255 without leading zeros) and the port is at most 65535.
  It reports the configured target, not an established connection.
\<close>

theorem getConnectedIP_configured:
  "getConnectedIP hostname_of (run hostname_of steps s)
     = (case hostname_of (publisherUrl s) of Some h \<Rightarrow> h | None \<Rightarrow> ''Unknown'')
   \<and> getConnectedIP hostname_of (run hostname_of steps (SocketService ip port))
     = (case hostname_of (mk_url ip port) of Some h \<Rightarrow> h | None \<Rightarrow> ''Unknown'')
   \<and> getConnectedIP hostname_of (run hostname_of steps (changeConnection ip port s))
     = (case hostname_of (mk_url ip port) of Some h \<Rightarrow> h | None \<Rightarrow> ''Unknown'')
   \<and> (a \<le> 255 \<and> b \<le> 255 \<and> c \<le> 255 \<and> d \<le> 255 \<and> port \<le> 65535 \<longrightarrow>
        getConnectedIP url_hostname
          (run url_hostname steps (SocketService (ipv4_string a b c d) port))
          = ipv4_string a b c d
        \<and> getConnectedIP url_hostname
            (run url_hostname steps (changeConnection (ipv4_string a b c d) port s))
          = ipv4_string a b c d)"
proof -
  have "publisherUrl (SocketService ip port) = mk_url ip port" for ip port
    by (simp add: SocketService_def)
  then show ?thesis
    by (simp add: getConnectedIP_run changeConnection_url url_hostname_ipv4_string)
qed

theorem getConnectedIP_configured_witness:
  "ipv4_string 10 0 0 5 = ''10.0.0.5''
   \<and> getConnectedIP url_hostname
        (run url_hostname [CallConnect, Event 0 EvConnectError, CallDisconnect]
           (SocketService ''10.0.0.5'' 27182)) = ''10.0.0.5''
   \<and> isConnected (run url_hostname [CallConnect, Event 0 EvConnectError, CallDisconnect]
           (SocketService ''10.0.0.5'' 27182)) = False
   \<and> getConnectedIP url_hostname
        (run url_hostname [Event 1 EvConnectError]
           (changeConnection ''10.0.0.5'' 27182 (connect (SocketService ''10.0.0.32'' 27182))))
       = ''10.0.0.5''
   \<and> getConnectedIP url_hostname
        (run url_hostname [Event 1 EvConnect, Event 1 (EvDisconnect False)]
           (changeConnection ''localhost'' 27182 (connect (SocketService ''10.0.0.32'' 27182))))
       = ''localhost''"
proof -
  have i: "ipv4_string 10 0 0 5 = ''10.0.0.5''"
    by (simp add: ipv4_string_def number_to_string.simps digit_char_def char_of_eq_iff)
  have l: "url_hostname (mk_url ''localhost'' 27182) = Some ''localhost''"
    by (simp add: url_eval)
  have f: "isConnected (run url_hostname [CallConnect, Event 0 EvConnectError, CallDisconnect]
           (SocketService ''10.0.0.5'' 27182)) = False"
    by (simp add: disconnect_def sio_disconnect_fields split: option.splits)
  show ?thesis
    using f
      getConnectedIP_configured [of url_hostname
        "[CallConnect, Event 0 EvConnectError, CallDisconnect]"
        "connect (SocketService ''10.0.0.32'' 27182)" "''localhost''" 27182 10 0 0 5]
      getConnectedIP_configured [of url_hostname "[Event 1 EvConnectError]"
        "connect (SocketService ''10.0.0.32'' 27182)" "''localhost''" 27182 10 0 0 5]
      getConnectedIP_configured [of url_hostname "[Event 1 EvConnect, Event 1 (EvDisconnect False)]"
        "connect (SocketService ''10.0.0.32'' 27182)" "''localhost''" 27182 10 0 0 5]
    by (simp add: i l)
qed

end
